theory Spec2Isabelle
  imports Complex_Main "HOL-Library.AList" "HOL-Library.Monad_Syntax"
begin

section \<open>Power-loss recovery for print jobs: the checkpoint engine of \<^verbatim>\<open>pfprs.py\<close>\<close>

text \<open>
  The development embeds the class \<^verbatim>\<open>PowerLossRecovery\<close> of \<^verbatim>\<open>src/pfprs.py\<close>:
  the snapshot validator, the history buffer, the delay selection, the adaptive interval,
  the scheduler tick with its event handlers and commands, and the rewriting of the
  instruction file on resume.

  Conventions of the embedding:
  \<^item> Python \<^verbatim>\<open>float\<close> values are real numbers: rounding errors, infinities and NaN of
    IEEE arithmetic are outside the model. Python \<^verbatim>\<open>int\<close> is \<open>int\<close>.
  \<^item> A Python dictionary is an association list in insertion order; a value stored in
    one is a \<open>pyval\<close>. Booleans and lists do not occur in a snapshot and are left out.
  \<^item> Logging and debug output have no effect on the state and are left out.
  \<^item> A caught exception is the value \<open>None\<close> of an option type, since every handler of the
    source catches \<^verbatim>\<open>Exception\<close> without looking at its kind.
\<close>

subsection \<open>Python values\<close>

datatype pyval =
    VNone
  | VInt int
  | VFloat real
  | VStr string
  | VDict "(string \<times> pyval) list"

type_synonym pydict = "(string \<times> pyval) list"

text \<open>The type tests of \<^verbatim>\<open>isinstance\<close> that the validator uses.\<close>

datatype ptype = TDict | TInt | TNum | TStr

fun isinstance :: "pyval \<Rightarrow> ptype \<Rightarrow> bool" where
  "isinstance (VDict _) TDict = True"
| "isinstance (VInt _) TInt = True"
| "isinstance (VInt _) TNum = True"
| "isinstance (VFloat _) TNum = True"
| "isinstance (VStr _) TStr = True"
| "isinstance _ _ = False"

text \<open>The number held by a numeric value (\<^verbatim>\<open>float(v)\<close>); used after a type test only.\<close>

fun num_of :: "pyval \<Rightarrow> real" where
  "num_of (VInt i) = of_int i"
| "num_of (VFloat r) = r"
| "num_of _ = 0"

text \<open>Arithmetic on values raises \<^verbatim>\<open>TypeError\<close> on anything but numbers.\<close>

fun py_num :: "pyval \<Rightarrow> real option" where
  "py_num (VInt i) = Some (of_int i)"
| "py_num (VFloat r) = Some r"
| "py_num _ = None"

text \<open>\<^verbatim>\<open>v[k]\<close>: \<^verbatim>\<open>KeyError\<close> on a missing key, \<^verbatim>\<open>TypeError\<close> on a non-dictionary.\<close>

fun py_getitem :: "pyval \<Rightarrow> string \<Rightarrow> pyval option" where
  "py_getitem (VDict d) k = map_of d k"
| "py_getitem _ k = None"

text \<open>Truthiness, as \<^verbatim>\<open>if not v\<close> tests it.\<close>

fun py_truthy :: "pyval \<Rightarrow> bool" where
  "py_truthy VNone = False"
| "py_truthy (VInt i) = (i \<noteq> 0)"
| "py_truthy (VFloat r) = (r \<noteq> 0)"
| "py_truthy (VStr s) = (s \<noteq> [])"
| "py_truthy (VDict d) = (d \<noteq> [])"

text \<open>\<^verbatim>\<open>int(x)\<close> on a float truncates towards zero.\<close>

definition py_int :: "real \<Rightarrow> int" where
  "py_int x = (if 0 \<le> x then \<lfloor>x\<rfloor> else \<lceil>x\<rceil>)"

text \<open>\<^verbatim>\<open>round(x, n)\<close> on a float: to \<open>n\<close> decimals, a tie going to the even neighbour.\<close>

definition round_half_even :: "real \<Rightarrow> int" where
  "round_half_even x =
     (let f = \<lfloor>x\<rfloor>; d = x - of_int f
      in if d < 1 / 2 then f else if 1 / 2 < d then f + 1
         else if even f then f else f + 1)"

definition py_round :: "real \<Rightarrow> nat \<Rightarrow> real" where
  "py_round x n = of_int (round_half_even (x * 10 ^ n)) / 10 ^ n"

text \<open>
  The position that \<^verbatim>\<open>xs[i]\<close> reads in a list: from the end for a negative \<open>i\<close>, and
  \<open>None\<close> for the \<^verbatim>\<open>IndexError\<close> outside of the list.
\<close>

definition py_index :: "'a list \<Rightarrow> int \<Rightarrow> nat option" where
  "py_index xs i =
     (if 0 \<le> i \<and> i < int (length xs) then Some (nat i)
      else if i < 0 \<and> - int (length xs) \<le> i then Some (nat (int (length xs) + i))
      else None)"

subsection \<open>The object: configuration and mutable state\<close>

text \<open>
  The fields of \<^verbatim>\<open>self\<close> that the modelled methods read or write. \<open>stored\<close> is the
  slot \<^verbatim>\<open>resume_meta_info\<close> of the variable store, the persisted checkpoint;
  \<open>has_save_variables\<close> says that \<^verbatim>\<open>self.save_variables\<close> is not \<^verbatim>\<open>None\<close>.
\<close>

record plr =
  save_interval :: real
  save_on_layer :: bool
  extruders :: "string list"
  chamber_heater_name :: string
  history_size :: int
  save_delay :: int
  restart_gcode_lines :: "string list"
  time_based_enabled :: bool
  current_z_height :: real
  last_layer :: "int option"
  is_active :: bool
  resuming_print :: bool
  last_save_time :: real
  last_layer_change_time :: real
  last_extruder_change_time :: real
  consecutive_failures :: int
  last_save_attempt :: real
  power_loss_recovery_enabled :: bool
  has_save_variables :: bool
  state_history :: "pydict list"
  stored :: "pyval option"

text \<open>
  The bounds that \<^verbatim>\<open>__init__\<close> imposes when it reads the configuration
  (\<^verbatim>\<open>getfloat('save_interval', 30., minval=0., maxval=300.)\<close>,
  \<^verbatim>\<open>getint('history_size', 5, minval=2, maxval=20)\<close>,
  \<^verbatim>\<open>getint('save_delay', 2, minval=0, maxval=history_size - 1)\<close>).
\<close>

definition config_ok :: "plr \<Rightarrow> bool" where
  "config_ok p \<longleftrightarrow>
     0 \<le> save_interval p \<and> save_interval p \<le> 300 \<and>
     2 \<le> history_size p \<and> history_size p \<le> 20 \<and>
     0 \<le> save_delay p \<and> save_delay p \<le> history_size p - 1"

subsection \<open>The environment of one call\<close>

text \<open>What the collector reads from the host's status objects at one event time.\<close>

record readings =
  r_filename :: string
  r_file_position :: int
  r_file_size :: int
  r_position :: "real \<times> real \<times> real"
  r_hotend_temp :: real
  r_bed_temp :: "real option"
  r_chamber_temp :: "real option"
  r_offsets :: "((real \<times> real \<times> real) \<times> (real \<times> real \<times> real)) option"
  r_active_extruder :: string
  r_fan_speeds :: "(string \<times> real) list"

text \<open>
  What the host answers during one call: the reactor's clock, the job state of
  \<^verbatim>\<open>print_stats\<close>, the two times of the lag estimate (last move time of the toolhead,
  estimated print time of the MCU), the MCU's status dictionary, the collector's readings
  and whether the command that writes the variable succeeds. \<open>None\<close> is a lookup that
  raises.
\<close>

record env =
  monotonic :: real
  job_state :: "string option"
  lag_times :: "(real \<times> real) option"
  mcu_status :: "pydict option"
  sensors :: "readings option"
  store_write_ok :: bool

subsection \<open>Snapshot validation\<close>

text \<open>
  \<^verbatim>\<open>_verify_state\<close>. The table \<^verbatim>\<open>required_fields\<close> in the order of the source; a
  tuple of types \<^verbatim>\<open>(float, int)\<close> is \<open>TNum\<close>.
\<close>

definition required_fields :: "(string \<times> ptype \<times> (string \<times> ptype) list) list" where
  "required_fields =
     [(''position'', TDict, [(''x'', TNum), (''y'', TNum), (''z'', TNum)]),
      (''layer'', TInt, []),
      (''layer_height'', TNum, []),
      (''file_progress'', TDict,
         [(''position'', TInt), (''total_size'', TInt), (''progress_pct'', TNum)]),
      (''collection_time'', TNum, []),
      (''save_time'', TNum, []),
      (''hotend_temp'', TNum, []),
      (''bed_temp'', TNum, []),
      (''chamber_temp'', TNum, []),
      (''active_extruder'', TStr, [])]"

fun check_subfields :: "string \<Rightarrow> pyval \<Rightarrow> (string \<times> ptype) list \<Rightarrow> string option" where
  "check_subfields field v [] = None"
| "check_subfields field v ((subfield, subtype) # rest) =
     (case py_getitem v subfield of
        None \<Rightarrow> Some (''Missing subfield '' @ subfield @ '' in '' @ field)
      | Some w \<Rightarrow>
          if \<not> isinstance w subtype
          then Some (''Subfield '' @ subfield @ '' in '' @ field @ '' has wrong type'')
          else check_subfields field v rest)"

fun check_fields ::
  "pydict \<Rightarrow> (string \<times> ptype \<times> (string \<times> ptype) list) list \<Rightarrow> string option" where
  "check_fields state [] = None"
| "check_fields state ((field, field_type, subfields) # rest) =
     (case map_of state field of
        None \<Rightarrow> Some (''Missing required field: '' @ field)
      | Some v \<Rightarrow>
          if \<not> isinstance v field_type then Some (''Field '' @ field @ '' has wrong type'')
          else (case check_subfields field v subfields of
                  Some msg \<Rightarrow> Some msg
                | None \<Rightarrow> check_fields state rest))"

text \<open>\<^verbatim>\<open>state[k]\<close> and \<^verbatim>\<open>state[k][j]\<close> where the checks above have found the key.\<close>

definition field :: "pydict \<Rightarrow> string \<Rightarrow> pyval" where
  "field state k = (case map_of state k of Some v \<Rightarrow> v | None \<Rightarrow> VNone)"

definition subfield :: "pydict \<Rightarrow> string \<Rightarrow> string \<Rightarrow> pyval" where
  "subfield state k j = (case py_getitem (field state k) j of Some v \<Rightarrow> v | None \<Rightarrow> VNone)"

definition str_of :: "pyval \<Rightarrow> string" where
  "str_of v = (case v of VStr s \<Rightarrow> s | _ \<Rightarrow> [])"

definition verify_state :: "plr \<Rightarrow> pyval \<Rightarrow> bool \<times> string option" where
  "verify_state p st =
     (case st of
        VDict state \<Rightarrow>
          (case check_fields state required_fields of
             Some msg \<Rightarrow> (False, Some msg)
           | None \<Rightarrow>
               if num_of (subfield state ''file_progress'' ''total_size'') < 0
               then (False, Some ''File size cannot be negative'')
               else if \<not> (0 \<le> num_of (subfield state ''file_progress'' ''progress_pct'')
                          \<and> num_of (subfield state ''file_progress'' ''progress_pct'') \<le> 100)
               then (False, Some ''Progress percentage must be between 0 and 100'')
               else if num_of (field state ''layer'') < 0
               then (False, Some ''Layer number cannot be negative'')
               else if \<not> (- 273.15 \<le> num_of (field state ''hotend_temp'')
                          \<and> num_of (field state ''hotend_temp'') \<le> 500)
               then (False, Some ''Hotend temperature out of reasonable range'')
               else if \<not> (- 273.15 \<le> num_of (field state ''bed_temp'')
                          \<and> num_of (field state ''bed_temp'') \<le> 200)
               then (False, Some ''Bed temperature out of reasonable range'')
               else if \<not> (- 273.15 \<le> num_of (field state ''chamber_temp'')
                          \<and> num_of (field state ''chamber_temp'') \<le> 100)
               then (False, Some ''Chamber temperature out of reasonable range'')
               else if str_of (field state ''active_extruder'') \<notin> set (extruders p)
               then (False, Some (''Active extruder '' @ str_of (field state ''active_extruder'')
                                   @ '' not in configured extruders list''))
               else (True, None))
      | _ \<Rightarrow> (False, Some ''State must be a dictionary''))"

subsection \<open>Snapshot collection\<close>

text \<open>
  \<^verbatim>\<open>_collect_current_state\<close>: every quantity is read at the one event time. The
  percentage is \<^verbatim>\<open>round(file_position / file_size * 100, 2)\<close>, and the integer \<open>0\<close> when
  the size is not positive. A status object that cannot be read gives \<open>None\<close>.
\<close>

definition collect_current_state :: "plr \<Rightarrow> env \<Rightarrow> pydict option" where
  "collect_current_state p e =
     (case sensors e of
        None \<Rightarrow> None
      | Some r \<Rightarrow>
          let eventtime = monotonic e;
              fan_speeds = map (\<lambda>(name, speed). (name, VFloat (py_round speed 3))) (r_fan_speeds r);
              current_file = r_filename r;
              file_position = r_file_position r;
              file_size = r_file_size r;
              progress_pct =
                (if file_size > 0
                 then VFloat (py_round (of_int file_position / of_int file_size * 100) 2)
                 else VInt 0);
              current_progress =
                [(''position'', VInt file_position),
                 (''total_size'', VInt file_size),
                 (''progress_pct'', progress_pct)];
              hotend_temp = r_hotend_temp r;
              bed_temp = (case r_bed_temp r of Some t \<Rightarrow> t | None \<Rightarrow> 0);
              chamber_temp = (case r_chamber_temp r of Some t \<Rightarrow> t | None \<Rightarrow> 0);
              xyz_offsets =
                (case r_offsets r of
                   Some ((hx, hy, hz), (ox, oy, oz)) \<Rightarrow>
                     [(''x'', VFloat (py_round (hx + ox) 3)),
                      (''y'', VFloat (py_round (hy + oy) 3)),
                      (''z'', VFloat (py_round (hz + oz) 3))]
                 | None \<Rightarrow> [(''x'', VFloat 0), (''y'', VFloat 0), (''z'', VFloat 0)])
          in (case r_position r of (px, py, pz) \<Rightarrow>
                Some
                  [(''position'', VDict [(''x'', VFloat (py_round px 3)),
                                         (''y'', VFloat (py_round py 3)),
                                         (''z'', VFloat (py_round pz 3))]),
                   (''xyz_offsets'', VDict xyz_offsets),
                   (''fan_speeds'', VDict fan_speeds),
                   (''layer'', (case last_layer p of Some l \<Rightarrow> VInt l | None \<Rightarrow> VNone)),
                   (''layer_height'', VFloat (py_round (current_z_height p) 3)),
                   (''file_progress'', VDict current_progress),
                   (''active_extruder'', VStr (r_active_extruder r)),
                   (''hotend_temp'', VFloat (py_round hotend_temp 1)),
                   (''bed_temp'', VFloat (py_round bed_temp 1)),
                   (''chamber_temp'', VFloat (py_round chamber_temp 1)),
                   (''save_time'', VFloat eventtime),
                   (''current_file'', VStr current_file),
                   (''collection_time'', VFloat eventtime)]))"

text \<open>\<^verbatim>\<open>_get_move_buffer_status\<close>: the three counters, zero where the MCU gives none.\<close>

definition dict_get :: "pydict \<Rightarrow> string \<Rightarrow> pyval \<Rightarrow> pyval" where
  "dict_get d k dflt = (case map_of d k of Some v \<Rightarrow> v | None \<Rightarrow> dflt)"

definition get_move_buffer_status :: "env \<Rightarrow> pydict" where
  "get_move_buffer_status e =
     (case mcu_status e of
        Some status \<Rightarrow>
          [(''moves_pending'', dict_get status ''moves_pending'' (VInt 0)),
           (''min_move_time'', dict_get status ''min_move_time'' (VInt 0)),
           (''max_move_time'', dict_get status ''max_move_time'' (VInt 0))]
      | None \<Rightarrow>
          [(''moves_pending'', VInt 0), (''min_move_time'', VInt 0), (''max_move_time'', VInt 0)])"

subsection \<open>History buffer\<close>

text \<open>\<^verbatim>\<open>deque(maxlen=history_size).append\<close>: the oldest entry leaves when the buffer is full.\<close>

definition deque_append :: "int \<Rightarrow> 'a list \<Rightarrow> 'a \<Rightarrow> 'a list" where
  "deque_append maxlen xs x = (let ys = xs @ [x] in drop (length ys - nat maxlen) ys)"

text \<open>Every entry of the history passes the validator.\<close>

definition history_valid :: "plr \<Rightarrow> bool" where
  "history_valid p = list_all (\<lambda>s. fst (verify_state p (VDict s))) (state_history p)"

subsection \<open>Adaptive interval\<close>

text \<open>
  \<^verbatim>\<open>_optimize_background_interval\<close>. The body of the \<^verbatim>\<open>try\<close> is \<open>optimize_interval_try\<close>:
  reading a missing key or subtracting non-numbers in a history entry raises and gives
  \<open>None\<close>; the handler then returns the configured interval.
\<close>

definition axis_change :: "pydict \<Rightarrow> pydict \<Rightarrow> string \<Rightarrow> real option" where
  "axis_change s1 s0 axis =
     do { p1 \<leftarrow> map_of s1 ''position''; a1 \<leftarrow> py_getitem p1 axis; n1 \<leftarrow> py_num a1;
          p0 \<leftarrow> map_of s0 ''position''; a0 \<leftarrow> py_getitem p0 axis; n0 \<leftarrow> py_num a0;
          Some \<bar>n1 - n0\<bar> }"

definition pos_change :: "pydict \<Rightarrow> pydict \<Rightarrow> real option" where
  "pos_change s1 s0 =
     do { dx \<leftarrow> axis_change s1 s0 ''x''; dy \<leftarrow> axis_change s1 s0 ''y'';
          dz \<leftarrow> axis_change s1 s0 ''z''; Some (dx + dy + dz) }"

definition temp_change :: "pydict \<Rightarrow> pydict \<Rightarrow> real option" where
  "temp_change s1 s0 =
     do { t1 \<leftarrow> map_of s1 ''hotend_temp''; n1 \<leftarrow> py_num t1;
          t0 \<leftarrow> map_of s0 ''hotend_temp''; n0 \<leftarrow> py_num t0;
          Some \<bar>n1 - n0\<bar> }"

definition optimize_interval_try :: "plr \<Rightarrow> env \<Rightarrow> real option" where
  "optimize_interval_try p e =
     (let current_time = monotonic e;
          time_since_extruder_change = current_time - last_extruder_change_time p;
          reduction_factor =
            (if time_since_extruder_change < 20
             then min 1 (0.3 + (time_since_extruder_change / 20) * 0.7)
             else 1);
          interval = save_interval p * reduction_factor;
          min_interval = (if time_since_extruder_change < 5 then 3 else 5)
      in do {
           interval2 \<leftarrow>
             (if 2 \<le> length (state_history p)
              then (case drop (length (state_history p) - 2) (state_history p) of
                      [s0, s1] \<Rightarrow>
                        do { pc \<leftarrow> pos_change s1 s0;
                             let interval1 = (if 10 < pc then interval * 0.75 else interval);
                             tc \<leftarrow> temp_change s1 s0;
                             Some (if 5 < tc then interval1 * 0.75 else interval1) }
                    | _ \<Rightarrow> None)
              else Some interval);
           Some (max interval2 min_interval) })"

definition optimize_background_interval :: "plr \<Rightarrow> env \<Rightarrow> real" where
  "optimize_background_interval p e =
     (case optimize_interval_try p e of Some v \<Rightarrow> v | None \<Rightarrow> save_interval p)"

subsection \<open>Delay selection\<close>

text \<open>
  \<^verbatim>\<open>_calculate_optimal_delay\<close>: the lag between the queued and the executed print time,
  counted in save intervals. A failing lookup and the division by a zero interval are
  caught, and the configured delay is returned.
\<close>

definition calculate_optimal_delay :: "plr \<Rightarrow> env \<Rightarrow> int" where
  "calculate_optimal_delay p e =
     (case lag_times e of
        None \<Rightarrow> save_delay p
      | Some (print_time, est_print_time) \<Rightarrow>
          let mcu_lag = print_time - est_print_time
          in if save_interval p = 0 then save_delay p
             else let needed_intervals = max 1 (py_int (mcu_lag / save_interval p) + 1);
                      optimal_delay = needed_intervals
                  in min optimal_delay (history_size p - 1))"

subsection \<open>Saving a checkpoint\<close>

text \<open>
  \<^verbatim>\<open>_save_current_state\<close>. The four guards return at once. Inside the \<^verbatim>\<open>try\<close>, the
  history must hold more entries than the computed delay; the entry is then read at
  \<^verbatim>\<open>history_list[-(self.save_delay + 1)]\<close>. \<^verbatim>\<open>list(self.state_history)\<close> copies the
  deque but not its dictionaries, so the assignment to \<^verbatim>\<open>state_to_save['mcu_status']\<close>
  writes into the entry of the history: the model puts the updated entry back. An index
  out of range and a failing write of the variable are caught by the handler, which
  leaves what was done before in place.
\<close>

definition save_current_state :: "plr \<Rightarrow> env \<Rightarrow> plr" where
  "save_current_state p e =
     (if \<not> is_active p then p
      else if resuming_print p then p
      else if \<not> power_loss_recovery_enabled p then p
      else if \<not> has_save_variables p then p
      else
        let optimal_delay = calculate_optimal_delay p e
        in if optimal_delay < int (length (state_history p))
           then (case py_index (state_history p) (- (save_delay p + 1)) of
                   None \<Rightarrow> p
                 | Some i \<Rightarrow>
                     let buffer_status = get_move_buffer_status e;
                         state_to_save =
                           AList.update ''mcu_status'' (VDict buffer_status) (state_history p ! i);
                         p1 = p\<lparr>state_history := (state_history p)[i := state_to_save]\<rparr>
                     in if \<not> fst (verify_state p1 (VDict state_to_save)) then p1
                        else if \<not> store_write_ok e then p1
                        else p1\<lparr>stored := Some (VDict state_to_save),
                                last_save_time := monotonic e,
                                consecutive_failures := 0\<rparr>)
           else p)"

subsection \<open>The scheduler tick\<close>

text \<open>
  \<^verbatim>\<open>_background_task\<close>, in the steps of the source. \<open>track_job\<close> follows the job
  state; \<open>collect_step\<close> collects and validates a snapshot and updates the local failure
  counter; \<open>should_save\<close> is the save decision after the backoff; the tick returns the
  next wake time and the new state.
\<close>

definition track_job :: "plr \<Rightarrow> bool \<Rightarrow> int \<Rightarrow> plr \<times> int" where
  "track_job p printing consecutive_failures0 =
     (if printing \<noteq> is_active p
      then (if printing then (p\<lparr>is_active := printing, state_history := []\<rparr>, 0)
            else (p\<lparr>is_active := printing\<rparr>, consecutive_failures0))
      else (p, consecutive_failures0))"

definition collect_step :: "plr \<Rightarrow> env \<Rightarrow> int \<Rightarrow> plr \<times> int" where
  "collect_step p e consecutive_failures0 =
     (case collect_current_state p e of
        None \<Rightarrow> (p, consecutive_failures0)
      | Some current_state \<Rightarrow>
          if current_state = [] then (p, consecutive_failures0)
          else if fst (verify_state p (VDict current_state))
          then (p\<lparr>state_history := deque_append (history_size p) (state_history p) current_state\<rparr>,
                0)
          else (p, consecutive_failures0 + 1))"

definition backoff :: "int \<Rightarrow> int" where
  "backoff consecutive_failures0 = min 30 (2 ^ nat consecutive_failures0)"

definition should_save :: "plr \<Rightarrow> env \<Rightarrow> real \<Rightarrow> int \<Rightarrow> real \<Rightarrow> bool" where
  "should_save p e eventtime consecutive_failures0 last_save_attempt0 =
     (let by_time =
            (if time_based_enabled p
             then optimize_background_interval p e \<le> eventtime - last_save_time p
             else False)
      in if 0 < consecutive_failures0
            \<and> eventtime - last_save_attempt0 < of_int (backoff consecutive_failures0)
         then False
         else by_time)"

definition background_task :: "plr \<Rightarrow> env \<Rightarrow> real \<Rightarrow> real \<times> plr" where
  "background_task p e eventtime =
     (case job_state e of
        None \<Rightarrow> (eventtime + 1, p)
      | Some current_state \<Rightarrow>
          let last_save_attempt0 = last_save_attempt p;
              printing = (current_state = ''printing'');
              (p1, cf1) = track_job p printing (consecutive_failures p)
          in if is_active p1 \<and> \<not> power_loss_recovery_enabled p1 then (eventtime + 1, p1)
             else
               let (p3, cf3) =
                     (if is_active p1
                      then (let (p2, cf2) = collect_step p1 e cf1
                            in if should_save p2 e eventtime cf2 last_save_attempt0
                               then (save_current_state (p2\<lparr>last_save_attempt := eventtime\<rparr>) e,
                                     cf2)
                               else (p2, cf2))
                      else (p1, cf1));
                   p4 = p3\<lparr>consecutive_failures := cf3\<rparr>
               in if \<not> time_based_enabled p4 \<or> \<not> printing then (eventtime + 1, p4)
                  else (eventtime + optimize_background_interval p4 e, p4))"

subsection \<open>Event handlers and commands\<close>

text \<open>
  A parameter of a command: absent, given, or given with text that does not parse (the
  accessor then raises). \<^verbatim>\<open>_handle_layer_change\<close> stores the layer, then the height,
  then saves; an accessor that raises ends the handler with what was stored before.
  Both handlers finish by asking the reactor for an immediate tick, which is a call of
  \<open>background_task\<close> by the host.
\<close>

datatype 'a param = Absent | Given 'a | Malformed

definition handle_layer_change :: "plr \<Rightarrow> env \<Rightarrow> int param \<Rightarrow> real param \<Rightarrow> plr" where
  "handle_layer_change p e layer layer_height =
     (if \<not> save_on_layer p \<or> \<not> is_active p then p
      else (case layer of
              Malformed \<Rightarrow> p
            | _ \<Rightarrow>
              let p1 = p\<lparr>last_layer := (case layer of Given l \<Rightarrow> Some l | _ \<Rightarrow> None)\<rparr>
              in (case layer_height of
                    Malformed \<Rightarrow> p1
                  | Absent \<Rightarrow>
                      save_current_state (p1\<lparr>last_layer_change_time := monotonic e\<rparr>) e
                  | Given h \<Rightarrow>
                      save_current_state
                        (p1\<lparr>last_layer_change_time := monotonic e, current_z_height := h\<rparr>) e)))"

definition handle_activate_extruder :: "plr \<Rightarrow> env \<Rightarrow> plr" where
  "handle_activate_extruder p e =
     (if \<not> is_active p then p
      else save_current_state (p\<lparr>last_extruder_change_time := monotonic e\<rparr>) e)"

definition cmd_PLR_SAVE_PRINT_STATE :: "plr \<Rightarrow> env \<Rightarrow> plr" where
  "cmd_PLR_SAVE_PRINT_STATE p e = save_current_state p e"

definition cmd_PLR_ENABLE :: "plr \<Rightarrow> plr" where
  "cmd_PLR_ENABLE p = p\<lparr>power_loss_recovery_enabled := True\<rparr>"

definition cmd_PLR_DISABLE :: "plr \<Rightarrow> plr" where
  "cmd_PLR_DISABLE p = p\<lparr>power_loss_recovery_enabled := False\<rparr>"

text \<open>\<^verbatim>\<open>_reset_state\<close> (command \<^verbatim>\<open>PLR_RESET_PRINT_DATA\<close>) stores the empty dictionary.\<close>

definition reset_state :: "plr \<Rightarrow> env \<Rightarrow> plr" where
  "reset_state p e =
     (if \<not> has_save_variables p then p
      else if \<not> store_write_ok e then p
      else p\<lparr>stored := Some (VDict []), last_layer := Some 0, last_save_time := 0\<rparr>)"

text \<open>
  \<^verbatim>\<open>__init__\<close>: the options it reads, and the object it builds from them. The lists are
  the options after splitting and stripping. An option outside its bounds is a
  configuration error. \<open>slot\<close> is what the variable store holds from an earlier run.
\<close>

record config =
  c_save_interval :: real
  c_save_on_layer :: bool
  c_extruders :: "string list"
  c_chamber_heater :: string
  c_history_size :: int
  c_save_delay :: int
  c_restart_gcode_lines :: "string list"

definition init :: "config \<Rightarrow> pyval option \<Rightarrow> plr option" where
  "init c slot =
     (if \<not> (0 \<le> c_save_interval c \<and> c_save_interval c \<le> 300) then None
      else if \<not> (2 \<le> c_history_size c \<and> c_history_size c \<le> 20) then None
      else if \<not> (0 \<le> c_save_delay c \<and> c_save_delay c \<le> c_history_size c - 1) then None
      else Some \<lparr>save_interval = c_save_interval c,
                 save_on_layer = c_save_on_layer c,
                 extruders = c_extruders c,
                 chamber_heater_name = c_chamber_heater c,
                 history_size = c_history_size c,
                 save_delay = c_save_delay c,
                 restart_gcode_lines = c_restart_gcode_lines c,
                 time_based_enabled = (0 < c_save_interval c),
                 current_z_height = 0,
                 last_layer = Some 0,
                 is_active = False,
                 resuming_print = False,
                 last_save_time = 0,
                 last_layer_change_time = 0,
                 last_extruder_change_time = 0,
                 consecutive_failures = 0,
                 last_save_attempt = 0,
                 power_loss_recovery_enabled = False,
                 has_save_variables = True,
                 state_history = [],
                 stored = slot\<rparr>)"

text \<open>\<^verbatim>\<open>_handle_connect\<close> looks the variable store up again; it may be missing.\<close>

definition handle_connect :: "plr \<Rightarrow> bool \<Rightarrow> plr" where
  "handle_connect p found = p\<lparr>has_save_variables := found\<rparr>"

subsection \<open>Rewriting the instruction file on resume\<close>

text \<open>
  The file system is a map from path to content. The backup is opened in text mode: a
  content is the text the reader sees, a list of characters with the line feed as line
  end, and \<^verbatim>\<open>len(line)\<close> counts its characters.
\<close>

type_synonym filesys = "string \<Rightarrow> string option"

definition nl :: string where
  "nl = [CHR 0x0A]"

text \<open>Iterating over a text file: each line keeps its line feed; the last may have none.\<close>

fun py_lines :: "string \<Rightarrow> string list" where
  "py_lines [] = []"
| "py_lines (c # cs) =
     (if c = CHR 0x0A then [c] # py_lines cs
      else (case py_lines cs of [] \<Rightarrow> [[c]] | l # ls \<Rightarrow> (c # l) # ls))"

text \<open>
  \<^verbatim>\<open>_get_saved_state\<close>: the stored value, if there is one, it is not empty and it
  passes the validator.
\<close>

definition get_saved_state :: "plr \<Rightarrow> pyval option" where
  "get_saved_state p =
     (if \<not> has_save_variables p then None
      else (case stored p of
              None \<Rightarrow> None
            | Some state_data \<Rightarrow>
                if \<not> py_truthy state_data then None
                else if \<not> fst (verify_state p state_data) then None
                else Some state_data))"

text \<open>
  How the run time prints numbers in an f-string is not part of the repository: \<open>fmt_3f\<close>
  is the format \<^verbatim>\<open>{x:.3f}\<close>, \<open>fmt_str\<close> the plain \<^verbatim>\<open>{x}\<close>.
\<close>

record fmt =
  fmt_3f :: "real \<Rightarrow> string"
  fmt_str :: "pyval \<Rightarrow> string"

definition PLACEHOLDER :: string where
  "PLACEHOLDER = '';;;;; PLR_RESUME - PRINT GCODE STARTS ;;;;;''"

text \<open>
  The writes before the copy loop, one list element for each call of \<^verbatim>\<open>outfile.write\<close>.
  Everything but the placeholder is under \<^verbatim>\<open>if self.restart_gcode_lines:\<close>.
\<close>

definition preamble_writes :: "fmt \<Rightarrow> plr \<Rightarrow> pydict \<Rightarrow> pyval \<Rightarrow> string list" where
  "preamble_writes fm p saved_state saved_z =
     (let active_extruder = dict_get saved_state ''active_extruder'' (VStr ''extruder'');
          chamber_temp = dict_get saved_state ''chamber_temp'' (VInt 0)
      in (if restart_gcode_lines p \<noteq> []
          then [''ACTIVATE_EXTRUDER EXTRUDER='' @ str_of active_extruder @ nl]
               @ (if 0 < num_of chamber_temp \<and> chamber_heater_name p \<noteq> []
                  then [''SET_HEATER_TEMPERATURE HEATER='' @ chamber_heater_name p
                          @ '' TARGET='' @ fmt_str fm chamber_temp @ nl]
                  else [])
               @ [''G1 Z'' @ fmt_3f fm (num_of saved_z) @ '' F3000 ; Restore Z height'' @ nl]
               @ map (\<lambda>gcode_line. gcode_line @ nl) (restart_gcode_lines p)
          else [])
         @ [PLACEHOLDER @ nl])"

text \<open>The copy loop: a line is skipped while the count after it is below the position.\<close>

fun copy_lines :: "int \<Rightarrow> int \<Rightarrow> string list \<Rightarrow> string list" where
  "copy_lines file_position current_position [] = []"
| "copy_lines file_position current_position (line # rest) =
     (let current_position1 = current_position + int (length line)
      in if current_position1 < file_position
         then copy_lines file_position current_position1 rest
         else line # copy_lines file_position current_position1 rest)"

text \<open>
  A failure forced into the rewrite: the rename, one of the two \<^verbatim>\<open>open\<close> calls, the
  \<open>k\<close>-th write or the read of the \<open>j\<close>-th line (counted from 0). \<open>rewrite_stream\<close> gives
  whether the \<^verbatim>\<open>with\<close> block ran to its end, and what it wrote.
\<close>

datatype fault = NoFault | FailRename | FailOpenIn | FailOpenOut | FailWrite nat | FailRead nat

definition rewrite_stream :: "fault \<Rightarrow> string list \<Rightarrow> int \<Rightarrow> string list \<Rightarrow> bool \<times> string list" where
  "rewrite_stream flt pre file_position lines =
     (case flt of
        FailWrite k \<Rightarrow>
          (let writes = pre @ copy_lines file_position 0 lines
           in if k < length writes then (False, take k writes) else (True, writes))
      | FailRead j \<Rightarrow>
          if j < length lines then (False, pre @ copy_lines file_position 0 (take j lines))
          else (True, pre @ copy_lines file_position 0 lines)
      | _ \<Rightarrow> (True, pre @ copy_lines file_position 0 lines))"

text \<open>The handler: remove the new file if it exists, rename the backup back if it exists.\<close>

definition rollback :: "filesys \<Rightarrow> string \<Rightarrow> string \<Rightarrow> filesys" where
  "rollback fs input_file backup_file =
     (let fs1 = (if fs input_file \<noteq> None then fs(input_file := None) else fs)
      in (case fs1 backup_file of
            Some content \<Rightarrow> fs1(backup_file := None, input_file \<mapsto> content)
          | None \<Rightarrow> fs1))"

text \<open>
  \<^verbatim>\<open>_modify_gcode_file\<close>: the path of the new file, or \<open>None\<close>, and the file system
  after the call. Renaming a file that does not exist raises, as a forced failure does.
\<close>

definition modify_gcode_file ::
  "fmt \<Rightarrow> fault \<Rightarrow> plr \<Rightarrow> filesys \<Rightarrow> string \<Rightarrow> int \<Rightarrow> string option \<times> filesys" where
  "modify_gcode_file fm flt p fs input_file file_position =
     (case get_saved_state p of
        Some (VDict saved_state) \<Rightarrow>
          (case py_getitem (field saved_state ''position'') ''z'' of
             None \<Rightarrow> (None, fs)
           | Some saved_z \<Rightarrow>
               let backup_file = input_file @ ''.plr''
               in (case fs input_file of
                     None \<Rightarrow> (None, fs)
                   | Some original \<Rightarrow>
                       if flt = FailRename then (None, fs)
                       else
                         let fs1 = fs(input_file := None, backup_file \<mapsto> original)
                         in if flt = FailOpenIn then (None, rollback fs1 input_file backup_file)
                            else if flt = FailOpenOut
                            then (None, rollback fs1 input_file backup_file)
                            else
                              let (finished, written) =
                                    rewrite_stream flt (preamble_writes fm p saved_state saved_z)
                                      file_position (py_lines original);
                                  fs2 = fs1(input_file \<mapsto> concat written)
                              in if finished then (Some input_file, fs2)
                                 else (None, rollback fs2 input_file backup_file)))
      | _ \<Rightarrow> (None, fs))"

subsection \<open>The copied part in the words of the specification\<close>

text \<open>
  The specification describes the part of the new file after the placeholder as the
  backup from the first line boundary whose offset is at least the resume offset. The line
  boundaries are the start of the file and the end of every line. These two definitions
  follow that wording, not the source; they are compared with \<open>copy_lines\<close> below.
\<close>

fun line_ends :: "nat \<Rightarrow> string list \<Rightarrow> nat list" where
  "line_ends acc [] = []"
| "line_ends acc (l # ls) = (acc + length l) # line_ends (acc + length l) ls"

definition spec_first_boundary :: "int \<Rightarrow> string \<Rightarrow> nat" where
  "spec_first_boundary file_position content =
     (case filter (\<lambda>b. file_position \<le> int b) (0 # line_ends 0 (py_lines content)) of
        [] \<Rightarrow> length content
      | b # _ \<Rightarrow> b)"

definition spec_splice_body :: "int \<Rightarrow> string \<Rightarrow> string" where
  "spec_splice_body file_position content = drop (spec_first_boundary file_position content) content"

subsection \<open>Example inputs\<close>

text \<open>
  A printer with two extruders and a chamber heater, a history of five snapshots taken
  at the file positions 100 to 500 of a file of 1000 characters, and the host's answers
  at time 100 with a lag of half a second.
\<close>

definition example_snapshot :: "int \<Rightarrow> pydict" where
  "example_snapshot k =
     [(''position'', VDict [(''x'', VFloat 10), (''y'', VFloat 20), (''z'', VFloat (of_int k))]),
      (''xyz_offsets'', VDict [(''x'', VFloat 0), (''y'', VFloat 0), (''z'', VFloat 0)]),
      (''fan_speeds'', VDict []),
      (''layer'', VInt k),
      (''layer_height'', VFloat (of_int k)),
      (''file_progress'', VDict [(''position'', VInt (100 * k)), (''total_size'', VInt 1000),
                                 (''progress_pct'', VFloat (of_int (10 * k)))]),
      (''active_extruder'', VStr ''extruder''),
      (''hotend_temp'', VFloat 210),
      (''bed_temp'', VFloat 60),
      (''chamber_temp'', VFloat 45),
      (''save_time'', VFloat (of_int (10 * k))),
      (''current_file'', VStr ''part.gcode''),
      (''collection_time'', VFloat (of_int (10 * k)))]"

definition example_plr :: plr where
  "example_plr =
     \<lparr>save_interval = 30,
      save_on_layer = True,
      extruders = [''extruder'', ''extruder1''],
      chamber_heater_name = ''chamber'',
      history_size = 5,
      save_delay = 2,
      restart_gcode_lines = [''G28 X Y'', ''M83''],
      time_based_enabled = True,
      current_z_height = 5,
      last_layer = Some 5,
      is_active = True,
      resuming_print = False,
      last_save_time = 0,
      last_layer_change_time = 0,
      last_extruder_change_time = 0,
      consecutive_failures = 0,
      last_save_attempt = 0,
      power_loss_recovery_enabled = True,
      has_save_variables = True,
      state_history = map example_snapshot [1, 2, 3, 4, 5],
      stored = None\<rparr>"

definition example_readings :: readings where
  "example_readings =
     \<lparr>r_filename = ''part.gcode'',
      r_file_position = 600,
      r_file_size = 1000,
      r_position = (10, 20, 6),
      r_hotend_temp = 210,
      r_bed_temp = Some 60,
      r_chamber_temp = Some 45,
      r_offsets = Some ((0, 0, 0), (0, 0, 0)),
      r_active_extruder = ''extruder'',
      r_fan_speeds = []\<rparr>"

definition example_env :: env where
  "example_env =
     \<lparr>monotonic = 100,
      job_state = Some ''printing'',
      lag_times = Some (50, 49.5),
      mcu_status = Some [(''moves_pending'', VInt 3)],
      sensors = Some example_readings,
      store_write_ok = True\<rparr>"

definition example_config :: config where
  "example_config =
     \<lparr>c_save_interval = 30,
      c_save_on_layer = True,
      c_extruders = [''extruder'', ''extruder1''],
      c_chamber_heater = ''chamber'',
      c_history_size = 5,
      c_save_delay = 2,
      c_restart_gcode_lines = [''G28 X Y'', ''M83'']\<rparr>"

text \<open>Readings that name an extruder the configuration does not list: an invalid snapshot.\<close>

definition example_env_bad :: env where
  "example_env_bad =
     example_env\<lparr>sensors := Some (example_readings\<lparr>r_active_extruder := ''extruder9''\<rparr>)\<rparr>"

definition example_fmt :: fmt where
  "example_fmt = \<lparr>fmt_3f = (\<lambda>x. ''3.000''), fmt_str = (\<lambda>v. ''45.0'')\<rparr>"

definition example_fs :: filesys where
  "example_fs = [''part.gcode'' \<mapsto> ''abc'' @ nl @ ''def'' @ nl @ ''ghi'' @ nl]"

text \<open>The example printer after a restart, with the third snapshot as persisted checkpoint.\<close>

definition example_plr_saved :: plr where
  "example_plr_saved = example_plr\<lparr>stored := Some (VDict (example_snapshot 3))\<rparr>"

text \<open>
  The same printer with a checkpoint taken in the example file itself, at the position 4:
  the end of its first line.
\<close>

definition example_snapshot_resume :: pydict where
  "example_snapshot_resume =
     AList.update ''file_progress''
       (VDict [(''position'', VInt 4), (''total_size'', VInt 12),
               (''progress_pct'', VFloat 33.33)])
       (example_snapshot 3)"

definition example_plr_resume :: plr where
  "example_plr_resume = example_plr\<lparr>stored := Some (VDict example_snapshot_resume)\<rparr>"

section \<open>Properties\<close>

lemma py_int_mono: "x \<le> y \<Longrightarrow> py_int x \<le> py_int y"
proof -
  assume xy: "x \<le> y"
  have fc: "\<lfloor>a\<rfloor> \<le> \<lceil>a\<rceil>" for a :: real
    by (simp add: floor_le_ceiling)
  show ?thesis
  proof (cases "0 \<le> x")
    case True
    with xy show ?thesis by (simp add: py_int_def floor_mono)
  next
    case False
    show ?thesis
    proof (cases "0 \<le> y")
      case True
      have "\<lceil>x\<rceil> \<le> 0" using False by (simp add: ceiling_le_zero)
      moreover have "0 \<le> \<lfloor>y\<rfloor>" using True by simp
      ultimately have "\<lceil>x\<rceil> \<le> \<lfloor>y\<rfloor>" by (rule order_trans)
      then show ?thesis using False True by (simp add: py_int_def)
    next
      case n: False
      with False xy show ?thesis by (simp add: py_int_def ceiling_mono)
    qed
  qed
qed

text \<open>
  C8. With a configuration inside the bounds of \<^verbatim>\<open>__init__\<close>, a larger measured lag
  never gives a smaller delay, and every delay the selector returns (also the fallback
  when the lag cannot be measured) is at most \<open>history_size - 1\<close>.
\<close>

theorem delay_monotone_and_capped:
  assumes "config_ok p"
    and "lag_times e1 = Some (t1, x1)" and "lag_times e2 = Some (t2, x2)"
    and "t1 - x1 \<le> t2 - x2"
  shows "calculate_optimal_delay p e1 \<le> calculate_optimal_delay p e2
       \<and> calculate_optimal_delay p e \<le> history_size p - 1"
proof
  show "calculate_optimal_delay p e1 \<le> calculate_optimal_delay p e2"
  proof (cases "save_interval p = 0")
    case True
    with assms(2,3) show ?thesis by (simp add: calculate_optimal_delay_def)
  next
    case False
    with assms(1) have pos: "0 < save_interval p" by (simp add: config_ok_def)
    from assms(4) pos have "(t1 - x1) / save_interval p \<le> (t2 - x2) / save_interval p"
      by (simp add: divide_right_mono)
    then have "py_int ((t1 - x1) / save_interval p) \<le> py_int ((t2 - x2) / save_interval p)"
      by (rule py_int_mono)
    with False assms(2,3) show ?thesis
      by (auto simp add: calculate_optimal_delay_def Let_def min_def max_def)
  qed
next
  from assms(1) have "save_delay p \<le> history_size p - 1" by (simp add: config_ok_def)
  then show "calculate_optimal_delay p e \<le> history_size p - 1"
    by (auto simp add: calculate_optimal_delay_def Let_def min_def
          split: option.splits prod.splits)
qed

theorem delay_monotone_and_capped_witness:
  "config_ok example_plr
   \<and> lag_times example_env = Some (50, 49.5)
   \<and> lag_times (example_env\<lparr>lag_times := Some (130, 50)\<rparr>) = Some (130, 50)
   \<and> (50 - 49.5 :: real) \<le> 130 - 50
   \<and> calculate_optimal_delay example_plr example_env
       \<le> calculate_optimal_delay example_plr (example_env\<lparr>lag_times := Some (130, 50)\<rparr>)
   \<and> calculate_optimal_delay example_plr example_env \<le> history_size example_plr - 1"
proof -
  have h1: "config_ok example_plr"
    by (simp add: config_ok_def example_plr_def)
  have h2: "lag_times example_env = Some (50, 49.5)"
    by (simp add: example_env_def)
  have h3: "lag_times (example_env\<lparr>lag_times := Some (130, 50)\<rparr>) = Some (130, 50)"
    by simp
  have h4: "(50 - 49.5 :: real) \<le> 130 - 50"
    by simp
  from delay_monotone_and_capped [OF h1 h2 h3 h4, of example_env] h1 h2 h3 h4
  show ?thesis by simp
qed

subsection \<open>Which snapshot a save persists\<close>

lemma example_delay: "calculate_optimal_delay example_plr example_env = 1"
  by (simp add: calculate_optimal_delay_def example_plr_def example_env_def py_int_def)

lemma example_snapshot_valid: "fst (verify_state example_plr (VDict (example_snapshot k))) = (0 \<le> k \<and> k \<le> 10)"
  by (auto simp add: verify_state_def example_snapshot_def required_fields_def field_def
        subfield_def str_of_def example_plr_def)

text \<open>
  C1. The save reads the history at the configured \<^verbatim>\<open>save_delay\<close>, not at the delay
  that \<^verbatim>\<open>_calculate_optimal_delay\<close> returned and that guards the read. With five
  snapshots, a computed delay of 1 and a configured delay of 2, the persisted
  checkpoint is the third-newest snapshot (with the buffer status added), not the
  second-newest; with two snapshots the guard passes, the read is out of range, and
  nothing is persisted.
\<close>

theorem save_reads_history_at_configured_delay:
  "calculate_optimal_delay example_plr example_env = 1
   \<and> save_delay example_plr = 2
   \<and> length (state_history example_plr) = 5
   \<and> rev (state_history example_plr) ! 1 = example_snapshot 4
   \<and> rev (state_history example_plr) ! 2 = example_snapshot 3
   \<and> stored (save_current_state example_plr example_env)
       = Some (VDict (example_snapshot 3 @
                [(''mcu_status'', VDict [(''moves_pending'', VInt 3),
                                         (''min_move_time'', VInt 0),
                                         (''max_move_time'', VInt 0)])]))
   \<and> stored (save_current_state
               (example_plr\<lparr>state_history := map example_snapshot [4, 5]\<rparr>) example_env)
       = None"
proof -
  have d2: "calculate_optimal_delay (example_plr\<lparr>state_history := map example_snapshot [4, 5]\<rparr>)
              example_env = 1"
    by (simp add: calculate_optimal_delay_def example_plr_def example_env_def py_int_def)
  have a: "save_delay example_plr = 2" "length (state_history example_plr) = 5"
    "rev (state_history example_plr) ! 1 = example_snapshot 4"
    "rev (state_history example_plr) ! 2 = example_snapshot 3"
    by (simp_all add: example_plr_def)
  have b: "stored (save_current_state
               (example_plr\<lparr>state_history := map example_snapshot [4, 5]\<rparr>) example_env)
       = None"
    by (simp add: save_current_state_def d2 py_index_def) (simp add: example_plr_def)
  have c: "stored (save_current_state example_plr example_env)
       = Some (VDict (example_snapshot 3 @
                [(''mcu_status'', VDict [(''moves_pending'', VInt 3),
                                         (''min_move_time'', VInt 0),
                                         (''max_move_time'', VInt 0)])]))"
    by code_simp
  from example_delay a b c show ?thesis by simp
qed

subsection \<open>What a valid snapshot holds\<close>

lemma check_subfields_NoneD:
  "check_subfields f v subs = None \<Longrightarrow> (sf, ty) \<in> set subs
   \<Longrightarrow> \<exists>w. py_getitem v sf = Some w \<and> isinstance w ty"
  by (induction subs) (auto split: option.splits if_splits)

lemma check_fields_NoneD:
  "check_fields state fs = None \<Longrightarrow> (f, ty, subs) \<in> set fs
   \<Longrightarrow> \<exists>v. map_of state f = Some v \<and> isinstance v ty \<and> check_subfields f v subs = None"
  by (induction fs) (auto split: option.splits if_splits)

lemma verify_state_fields:
  "fst (verify_state p (VDict s)) \<Longrightarrow> check_fields s required_fields = None"
  by (auto simp add: verify_state_def split: option.splits)

lemma isinstance_TNum: "isinstance w TNum \<Longrightarrow> \<exists>r. py_num w = Some r"
  by (cases w) auto

lemma valid_axis:
  assumes "fst (verify_state p (VDict s))" and "axis \<in> {''x'', ''y'', ''z''}"
  shows "\<exists>d a r. map_of s ''position'' = Some d \<and> py_getitem d axis = Some a \<and> py_num a = Some r"
proof -
  from assms(1) have cf: "check_fields s required_fields = None" by (rule verify_state_fields)
  have "(''position'', TDict, [(''x'', TNum), (''y'', TNum), (''z'', TNum)]) \<in> set required_fields"
    by (simp add: required_fields_def)
  from check_fields_NoneD [OF cf this] obtain d where
    d: "map_of s ''position'' = Some d"
       "check_subfields ''position'' d [(''x'', TNum), (''y'', TNum), (''z'', TNum)] = None"
    by blast
  from assms(2) have "(axis, TNum) \<in> set [(''x'', TNum), (''y'', TNum), (''z'', TNum)]" by auto
  from check_subfields_NoneD [OF d(2) this] obtain a where
    a: "py_getitem d axis = Some a" "isinstance a TNum" by blast
  from isinstance_TNum [OF a(2)] d(1) a(1) show ?thesis by blast
qed

lemma valid_hotend:
  assumes "fst (verify_state p (VDict s))"
  shows "\<exists>t r. map_of s ''hotend_temp'' = Some t \<and> py_num t = Some r"
proof -
  from assms(1) have cf: "check_fields s required_fields = None" by (rule verify_state_fields)
  have "(''hotend_temp'', TNum, []) \<in> set required_fields"
    by (simp add: required_fields_def)
  from check_fields_NoneD [OF cf this] obtain t where
    t: "map_of s ''hotend_temp'' = Some t" "isinstance t TNum" by blast
  from isinstance_TNum [OF t(2)] t(1) show ?thesis by blast
qed

lemma axis_change_valid:
  assumes "fst (verify_state p (VDict s1))" "fst (verify_state p (VDict s0))"
    and "axis \<in> {''x'', ''y'', ''z''}"
  shows "\<exists>r. axis_change s1 s0 axis = Some r"
proof -
  from valid_axis [OF assms(1,3)] obtain d1 a1 r1 where
    "map_of s1 ''position'' = Some d1" "py_getitem d1 axis = Some a1" "py_num a1 = Some r1" by blast
  moreover from valid_axis [OF assms(2,3)] obtain d0 a0 r0 where
    "map_of s0 ''position'' = Some d0" "py_getitem d0 axis = Some a0" "py_num a0 = Some r0" by blast
  ultimately show ?thesis by (simp add: axis_change_def)
qed

lemma pos_change_valid:
  assumes "fst (verify_state p (VDict s1))" "fst (verify_state p (VDict s0))"
  shows "\<exists>r. pos_change s1 s0 = Some r"
proof -
  from axis_change_valid [OF assms, of "''x''"] obtain dx where "axis_change s1 s0 ''x'' = Some dx" by auto
  moreover from axis_change_valid [OF assms, of "''y''"] obtain dy where "axis_change s1 s0 ''y'' = Some dy" by auto
  moreover from axis_change_valid [OF assms, of "''z''"] obtain dz where "axis_change s1 s0 ''z'' = Some dz" by auto
  ultimately show ?thesis by (simp add: pos_change_def)
qed

lemma temp_change_valid:
  assumes "fst (verify_state p (VDict s1))" "fst (verify_state p (VDict s0))"
  shows "\<exists>r. temp_change s1 s0 = Some r"
proof -
  from valid_hotend [OF assms(1)] obtain t1 r1 where "map_of s1 ''hotend_temp'' = Some t1" "py_num t1 = Some r1" by blast
  moreover from valid_hotend [OF assms(2)] obtain t0 r0 where "map_of s0 ''hotend_temp'' = Some t0" "py_num t0 = Some r0" by blast
  ultimately show ?thesis by (simp add: temp_change_def)
qed

lemma last_two:
  assumes "2 \<le> length xs"
  shows "\<exists>a b. drop (length xs - 2) xs = [a, b] \<and> a \<in> set xs \<and> b \<in> set xs"
proof -
  let ?d = "drop (length xs - 2) xs"
  from assms have "length ?d = 2" by simp
  then obtain a b where ab: "?d = [a, b]"
    by (cases ?d) (auto simp add: length_Suc_conv)
  have "set ?d \<subseteq> set xs" by (rule set_drop_subset)
  with ab show ?thesis by auto
qed

lemma optimize_interval_try_valid:
  assumes "\<forall>s \<in> set (state_history p). fst (verify_state p (VDict s))"
  shows "\<exists>v. optimize_interval_try p e = Some v"
proof (cases "2 \<le> length (state_history p)")
  case True
  from last_two [OF True] obtain s0 s1 where
    d: "drop (length (state_history p) - 2) (state_history p) = [s0, s1]"
    and m: "s0 \<in> set (state_history p)" "s1 \<in> set (state_history p)" by blast
  from assms m have v: "fst (verify_state p (VDict s1))" "fst (verify_state p (VDict s0))" by auto
  from pos_change_valid [OF v] obtain pc where pc: "pos_change s1 s0 = Some pc" by blast
  from temp_change_valid [OF v] obtain tc where tc: "temp_change s1 s0 = Some tc" by blast
  from True d pc tc show ?thesis
    by (simp add: optimize_interval_try_def Let_def)
next
  case False
  then show ?thesis by (simp add: optimize_interval_try_def Let_def)
qed

lemma optimize_interval_try_floor:
  assumes "optimize_interval_try p e = Some v"
  shows "3 \<le> v \<and> (\<not> monotonic e - last_extruder_change_time p < 5 \<longrightarrow> 5 \<le> v)"
  using assms
  by (auto simp add: optimize_interval_try_def Let_def split: if_splits list.splits bind_splits)

subsection \<open>The adaptive interval\<close>

text \<open>
  C7. When the body of \<^verbatim>\<open>_optimize_background_interval\<close> runs to its end, the interval
  is at least 3 seconds, and at least 5 seconds unless an extruder change is less than 5
  seconds old. It runs to its end whenever every history entry is a validated snapshot,
  which are the only entries the scheduler stores. When the body raises, the configured
  \<^verbatim>\<open>save_interval\<close> is returned unchanged.
\<close>

theorem adaptive_interval_floor:
  "(history_valid p \<longrightarrow>
      3 \<le> optimize_background_interval p e
      \<and> (\<not> monotonic e - last_extruder_change_time p < 5
           \<longrightarrow> 5 \<le> optimize_background_interval p e))
   \<and> (optimize_interval_try p e = Some v \<longrightarrow>
      optimize_background_interval p e = v \<and> 3 \<le> v
      \<and> (\<not> monotonic e - last_extruder_change_time p < 5 \<longrightarrow> 5 \<le> v))
   \<and> (optimize_interval_try p e = None \<longrightarrow> optimize_background_interval p e = save_interval p)"
proof -
  have ok: "optimize_background_interval p e = w \<and> 3 \<le> w
      \<and> (\<not> monotonic e - last_extruder_change_time p < 5 \<longrightarrow> 5 \<le> w)"
    if "optimize_interval_try p e = Some w" for w
    using optimize_interval_try_floor [OF that] that by (simp add: optimize_background_interval_def)
  have fail: "optimize_background_interval p e = save_interval p"
    if "optimize_interval_try p e = None"
    using that by (simp add: optimize_background_interval_def)
  have "\<exists>w. optimize_interval_try p e = Some w" if "history_valid p"
    using that optimize_interval_try_valid [of p e] by (simp add: history_valid_def list_all_iff)
  with ok fail show ?thesis by blast
qed

lemma example_history_valid: "history_valid example_plr"
proof -
  have "state_history example_plr = map example_snapshot [1, 2, 3, 4, 5]"
    by (simp add: example_plr_def)
  then show ?thesis
    by (simp add: history_valid_def example_snapshot_valid)
qed

theorem adaptive_interval_floor_witness:
  "history_valid example_plr
   \<and> 3 \<le> optimize_background_interval example_plr example_env
   \<and> \<not> monotonic example_env - last_extruder_change_time example_plr < 5
   \<and> 5 \<le> optimize_background_interval example_plr example_env
   \<and> optimize_interval_try example_plr example_env = Some 30
   \<and> optimize_background_interval example_plr example_env = 30
   \<and> optimize_interval_try (example_plr\<lparr>save_interval := 1, state_history := [[], []]\<rparr>)
        example_env = None
   \<and> optimize_background_interval (example_plr\<lparr>save_interval := 1, state_history := [[], []]\<rparr>)
        example_env = 1"
proof -
  have h1: "\<not> monotonic example_env - last_extruder_change_time example_plr < 5"
    by (simp add: example_env_def example_plr_def)
  have h2: "optimize_interval_try example_plr example_env = Some 30"
    by code_simp
  have h3: "optimize_interval_try (example_plr\<lparr>save_interval := 1, state_history := [[], []]\<rparr>)
        example_env = None"
    by (simp add: optimize_interval_try_def Let_def pos_change_def axis_change_def)
  from adaptive_interval_floor [of example_plr example_env 30]
    adaptive_interval_floor
      [of "example_plr\<lparr>save_interval := 1, state_history := [[], []]\<rparr>" example_env 0]
    example_history_valid h1 h2 h3
  show ?thesis by simp
qed

subsection \<open>The history holds validated snapshots only\<close>

lemma verify_state_extruders:
  "extruders q = extruders p \<Longrightarrow> verify_state q v = verify_state p v"
  by (simp add: verify_state_def cong: pyval.case_cong option.case_cong if_cong)

lemma check_fields_update:
  "k \<notin> fst ` set fs \<Longrightarrow> check_fields (AList.update k v s) fs = check_fields s fs"
  by (induction fs) (auto simp add: update_conv' split: option.splits)

lemma field_update: "f \<noteq> k \<Longrightarrow> field (AList.update k v s) f = field s f"
  by (simp add: field_def update_conv')

lemma subfield_update: "f \<noteq> k \<Longrightarrow> subfield (AList.update k v s) f j = subfield s f j"
  by (simp add: subfield_def field_update)

lemma verify_state_mcu_status:
  "verify_state p (VDict (AList.update ''mcu_status'' v s)) = verify_state p (VDict s)"
proof -
  have "''mcu_status'' \<notin> fst ` set required_fields"
    by (simp add: required_fields_def)
  then have "check_fields (AList.update ''mcu_status'' v s) required_fields
             = check_fields s required_fields"
    by (rule check_fields_update)
  then show ?thesis
    by (simp add: verify_state_def field_update subfield_update
          cong: option.case_cong if_cong split del: if_split)
qed

lemma verify_state_update [simp]:
  "verify_state (p\<lparr>state_history := h\<rparr>) = verify_state p"
  "verify_state (p\<lparr>is_active := b\<rparr>) = verify_state p"
  "verify_state (p\<lparr>last_save_attempt := t\<rparr>) = verify_state p"
  "verify_state (p\<lparr>consecutive_failures := n\<rparr>) = verify_state p"
  by (rule ext, rule verify_state_extruders, simp)+

lemma py_index_less: "py_index xs j = Some i \<Longrightarrow> i < length xs"
  by (auto simp add: py_index_def split: if_splits)

lemma save_extruders [simp]: "extruders (save_current_state p e) = extruders p"
  by (simp add: save_current_state_def Let_def split: option.splits)

lemma save_history_cases:
  "state_history (save_current_state p e) = state_history p
   \<or> (\<exists>i < length (state_history p).
        state_history (save_current_state p e)
        = (state_history p)
            [i := AList.update ''mcu_status'' (VDict (get_move_buffer_status e))
                    (state_history p ! i)])"
proof (cases "py_index (state_history p) (- (save_delay p + 1))")
  case None
  then show ?thesis by (simp add: save_current_state_def Let_def)
next
  case (Some i)
  from py_index_less [OF Some] have "i < length (state_history p)" .
  with Some show ?thesis
    by (auto simp add: save_current_state_def Let_def)
qed

lemma history_valid_save:
  assumes "history_valid p"
  shows "history_valid (save_current_state p e)"
proof -
  let ?P = "\<lambda>s. fst (verify_state p (VDict s))"
  have same: "verify_state (save_current_state p e) = verify_state p"
    by (rule ext, rule verify_state_extruders, simp)
  from assms have all: "list_all ?P (state_history p)" by (simp add: history_valid_def)
  have "list_all ?P (state_history (save_current_state p e))"
    using save_history_cases [of p e]
  proof
    assume "state_history (save_current_state p e) = state_history p"
    with all show ?thesis by simp
  next
    assume "\<exists>i < length (state_history p).
        state_history (save_current_state p e)
        = (state_history p)
            [i := AList.update ''mcu_status'' (VDict (get_move_buffer_status e))
                    (state_history p ! i)]"
    then obtain i where i: "i < length (state_history p)"
      and eq: "state_history (save_current_state p e)
        = (state_history p)
            [i := AList.update ''mcu_status'' (VDict (get_move_buffer_status e))
                    (state_history p ! i)]" by blast
    from all i have "?P (state_history p ! i)" by (simp add: list_all_length)
    then have "?P (AList.update ''mcu_status'' (VDict (get_move_buffer_status e))
                    (state_history p ! i))"
      by (simp add: verify_state_mcu_status)
    with all i show ?thesis
      unfolding eq by (auto simp add: list_all_length nth_list_update)
  qed
  then show ?thesis by (simp add: history_valid_def same)
qed

lemma history_valid_track_job:
  "history_valid p \<Longrightarrow> track_job p b cf = (p1, cf1) \<Longrightarrow> history_valid p1"
  by (auto simp add: track_job_def history_valid_def split: if_splits)

lemma list_all_deque_append:
  "list_all P xs \<Longrightarrow> P x \<Longrightarrow> list_all P (deque_append n xs x)"
  by (auto simp add: deque_append_def Let_def list_all_iff dest: in_set_dropD)

lemma history_valid_collect_step:
  "history_valid p \<Longrightarrow> collect_step p e cf = (p2, cf2) \<Longrightarrow> history_valid p2"
  by (auto simp add: collect_step_def history_valid_def list_all_deque_append
        split: option.splits if_splits)


lemma history_valid_upd [simp]:
  "history_valid (p\<lparr>last_save_attempt := t\<rparr>) = history_valid p"
  "history_valid (p\<lparr>consecutive_failures := n\<rparr>) = history_valid p"
  by (simp_all add: history_valid_def)

lemma history_valid_tick:
  assumes "history_valid p"
  shows "history_valid (snd (background_task p e t))"
proof (cases "job_state e")
  case None
  with assms show ?thesis by (simp add: background_task_def)
next
  case (Some st)
  obtain p1 cf1 where tj: "track_job p (st = ''printing'') (consecutive_failures p) = (p1, cf1)"
    by (cases "track_job p (st = ''printing'') (consecutive_failures p)")
  obtain p2 cf2 where cs: "collect_step p1 e cf1 = (p2, cf2)"
    by (cases "collect_step p1 e cf1")
  from assms tj have v1: "history_valid p1" by (rule history_valid_track_job)
  from v1 cs have v2: "history_valid p2" by (rule history_valid_collect_step)
  from v2 have v3: "history_valid (save_current_state (p2\<lparr>last_save_attempt := t\<rparr>) e)"
    by (simp add: history_valid_save)
  from Some tj cs v1 v2 v3 show ?thesis
    by (simp add: background_task_def Let_def)
qed

subsection \<open>Backoff\<close>

lemma should_save_backoff:
  assumes "1 \<le> f" and "eventtime - lsa < of_int (min 30 (2 ^ nat f))"
  shows "\<not> should_save p e eventtime f lsa"
  using assms by (simp add: should_save_def backoff_def Let_def)

lemma track_job_frame:
  "track_job p b cf = (p1, cf1) \<Longrightarrow>
     power_loss_recovery_enabled p1 = power_loss_recovery_enabled p \<and> stored p1 = stored p
     \<and> last_save_attempt p1 = last_save_attempt p"
  by (auto simp add: track_job_def split: if_splits)

lemma collect_step_frame:
  "collect_step p e cf = (p2, cf2) \<Longrightarrow>
     power_loss_recovery_enabled p2 = power_loss_recovery_enabled p \<and> stored p2 = stored p
     \<and> last_save_attempt p2 = last_save_attempt p"
  by (auto simp add: collect_step_def split: option.splits if_splits)

text \<open>
  C9. In a tick of an active, enabled job that leaves the failure counter at \<open>f \<ge> 1\<close>
  after its collection step, less than \<open>min 30 (2 ^ f)\<close> seconds after the last save
  attempt: the save decision is false, the tick ends in the state after the collection
  with only the counter stored, so no save is attempted, the time of the last attempt
  and the persisted checkpoint stay as they were.
\<close>

theorem backoff_suppresses_save:
  assumes js: "job_state e = Some st"
    and tj: "track_job p (st = ''printing'') (consecutive_failures p) = (p1, cf1)"
    and act: "is_active p1" and en: "power_loss_recovery_enabled p1"
    and cs: "collect_step p1 e cf1 = (p2, f)"
    and f: "1 \<le> f"
    and el: "eventtime - last_save_attempt p < of_int (min 30 (2 ^ nat f))"
  shows "\<not> should_save p2 e eventtime f (last_save_attempt p)
       \<and> snd (background_task p e eventtime) = p2\<lparr>consecutive_failures := f\<rparr>
       \<and> last_save_attempt (snd (background_task p e eventtime)) = last_save_attempt p
       \<and> stored (snd (background_task p e eventtime)) = stored p"
proof -
  have ns: "\<not> should_save p2 e eventtime f (last_save_attempt p)"
    using f el by (rule should_save_backoff)
  have tick: "snd (background_task p e eventtime) = p2\<lparr>consecutive_failures := f\<rparr>"
    using js tj act en cs ns by (simp add: background_task_def Let_def)
  from track_job_frame [OF tj] collect_step_frame [OF cs]
  have "last_save_attempt p2 = last_save_attempt p" "stored p2 = stored p" by simp_all
  with ns tick show ?thesis by simp
qed

lemma example_bad_collect:
  "collect_step (example_plr\<lparr>last_save_attempt := 99\<rparr>) example_env_bad 0
   = (example_plr\<lparr>last_save_attempt := 99\<rparr>, 1)"
  by code_simp

theorem backoff_suppresses_save_witness:
  "job_state example_env_bad = Some ''printing''
   \<and> track_job (example_plr\<lparr>last_save_attempt := 99\<rparr>) (''printing'' = ''printing'')
        (consecutive_failures (example_plr\<lparr>last_save_attempt := 99\<rparr>))
      = (example_plr\<lparr>last_save_attempt := 99\<rparr>, 0)
   \<and> is_active (example_plr\<lparr>last_save_attempt := 99\<rparr>)
   \<and> power_loss_recovery_enabled (example_plr\<lparr>last_save_attempt := 99\<rparr>)
   \<and> collect_step (example_plr\<lparr>last_save_attempt := 99\<rparr>) example_env_bad 0
      = (example_plr\<lparr>last_save_attempt := 99\<rparr>, 1)
   \<and> (1::int) \<le> 1
   \<and> (100::real) - last_save_attempt (example_plr\<lparr>last_save_attempt := 99\<rparr>)
       < of_int (min 30 (2 ^ nat 1))
   \<and> last_save_attempt (snd (background_task (example_plr\<lparr>last_save_attempt := 99\<rparr>)
        example_env_bad 100)) = 99
   \<and> stored (snd (background_task (example_plr\<lparr>last_save_attempt := 99\<rparr>)
        example_env_bad 100)) = None"
proof -
  let ?p = "example_plr\<lparr>last_save_attempt := 99\<rparr>"
  have h1: "job_state example_env_bad = Some ''printing''"
    by (simp add: example_env_bad_def example_env_def)
  have h2: "track_job ?p (''printing'' = ''printing'') (consecutive_failures ?p) = (?p, 0)"
    by (simp add: track_job_def example_plr_def)
  have h3: "is_active ?p" by (simp add: example_plr_def)
  have h4: "power_loss_recovery_enabled ?p" by (simp add: example_plr_def)
  have h5: "collect_step ?p example_env_bad 0 = (?p, 1)" by (rule example_bad_collect)
  have h6: "(1::int) \<le> 1" by simp
  have h7: "(100::real) - last_save_attempt ?p < of_int (min 30 (2 ^ nat 1))" by simp
  have s: "stored ?p = None" by (simp add: example_plr_def)
  from backoff_suppresses_save [OF h1 h2 h3 h4 h5 h6 h7] h1 h2 h3 h4 h5 h7 s
  show ?thesis by simp
qed

subsection \<open>The enabled flag\<close>

lemma save_current_state_enabled:
  "power_loss_recovery_enabled (save_current_state p e) = power_loss_recovery_enabled p"
  by (simp add: save_current_state_def Let_def split: option.splits)

lemma save_current_state_disabled:
  "\<not> power_loss_recovery_enabled p \<Longrightarrow> save_current_state p e = p"
  by (simp add: save_current_state_def)

lemma background_task_disabled:
  assumes "\<not> power_loss_recovery_enabled p"
  shows "stored (snd (background_task p e t)) = stored p
       \<and> \<not> power_loss_recovery_enabled (snd (background_task p e t))"
proof (cases "job_state e")
  case None
  with assms show ?thesis by (simp add: background_task_def)
next
  case (Some st)
  obtain p1 cf1 where tj: "track_job p (st = ''printing'') (consecutive_failures p) = (p1, cf1)"
    by (cases "track_job p (st = ''printing'') (consecutive_failures p)")
  from track_job_frame [OF tj] assms
  have "\<not> power_loss_recovery_enabled p1" "stored p1 = stored p" by simp_all
  with Some tj show ?thesis
    by (simp add: background_task_def Let_def)
qed

lemma handle_layer_change_disabled:
  assumes "\<not> power_loss_recovery_enabled p"
  shows "stored (handle_layer_change p e l h) = stored p
       \<and> \<not> power_loss_recovery_enabled (handle_layer_change p e l h)"
  using assms
  by (simp add: handle_layer_change_def save_current_state_disabled Let_def
        split: param.splits)

lemma handle_activate_extruder_disabled:
  assumes "\<not> power_loss_recovery_enabled p"
  shows "stored (handle_activate_extruder p e) = stored p
       \<and> \<not> power_loss_recovery_enabled (handle_activate_extruder p e)"
  using assms
  by (simp add: handle_activate_extruder_def save_current_state_disabled)

text \<open>
  C10. A new object has the flag off. While it is off, \<^verbatim>\<open>_save_current_state\<close> returns
  the state as it is, and the tick, the handlers of a layer change and of an extruder
  activation and the manual save command leave the persisted checkpoint alone; none of
  them, nor the disable command, the reset or the connect handler, turns the flag on.
  \<^verbatim>\<open>PLR_ENABLE\<close> turns it on.
\<close>

theorem saving_is_off_until_enabled:
  "(init c slot = Some p0 \<longrightarrow> \<not> power_loss_recovery_enabled p0)
   \<and> (\<not> power_loss_recovery_enabled p \<longrightarrow>
        save_current_state p e = p
        \<and> stored (snd (background_task p e t)) = stored p
        \<and> stored (handle_layer_change p e l h) = stored p
        \<and> stored (handle_activate_extruder p e) = stored p
        \<and> stored (cmd_PLR_SAVE_PRINT_STATE p e) = stored p
        \<and> \<not> power_loss_recovery_enabled (snd (background_task p e t))
        \<and> \<not> power_loss_recovery_enabled (handle_layer_change p e l h)
        \<and> \<not> power_loss_recovery_enabled (handle_activate_extruder p e)
        \<and> \<not> power_loss_recovery_enabled (cmd_PLR_SAVE_PRINT_STATE p e)
        \<and> \<not> power_loss_recovery_enabled (cmd_PLR_DISABLE p)
        \<and> \<not> power_loss_recovery_enabled (reset_state p e)
        \<and> \<not> power_loss_recovery_enabled (handle_connect p found))
   \<and> power_loss_recovery_enabled (cmd_PLR_ENABLE p)"
proof -
  have i: "init c slot = Some p0 \<longrightarrow> \<not> power_loss_recovery_enabled p0"
    by (auto simp add: init_def split: if_splits)
  have en: "power_loss_recovery_enabled (cmd_PLR_ENABLE p)"
    by (simp add: cmd_PLR_ENABLE_def)
  have rest: "\<not> power_loss_recovery_enabled (cmd_PLR_DISABLE p)
      \<and> \<not> power_loss_recovery_enabled (reset_state p e)
      \<and> \<not> power_loss_recovery_enabled (handle_connect p found)"
    if "\<not> power_loss_recovery_enabled p"
    using that by (simp add: cmd_PLR_DISABLE_def reset_state_def handle_connect_def)
  from i en rest background_task_disabled [of p e t] handle_layer_change_disabled [of p e l h]
    handle_activate_extruder_disabled [of p e] save_current_state_disabled [of p e]
  show ?thesis by (simp add: cmd_PLR_SAVE_PRINT_STATE_def)
qed

theorem saving_is_off_until_enabled_witness:
  "init example_config None
     = Some (example_plr\<lparr>current_z_height := 0, last_layer := Some 0, is_active := False,
               power_loss_recovery_enabled := False, state_history := []\<rparr>)
   \<and> \<not> power_loss_recovery_enabled
         (example_plr\<lparr>current_z_height := 0, last_layer := Some 0, is_active := False,
               power_loss_recovery_enabled := False, state_history := []\<rparr>)
   \<and> \<not> power_loss_recovery_enabled (example_plr\<lparr>power_loss_recovery_enabled := False\<rparr>)
   \<and> save_current_state (example_plr\<lparr>power_loss_recovery_enabled := False\<rparr>) example_env
       = example_plr\<lparr>power_loss_recovery_enabled := False\<rparr>
   \<and> stored (snd (background_task (example_plr\<lparr>power_loss_recovery_enabled := False\<rparr>)
                example_env 100)) = None
   \<and> stored (handle_layer_change (example_plr\<lparr>power_loss_recovery_enabled := False\<rparr>)
                example_env (Given 6) (Given 1.2)) = None
   \<and> stored (handle_activate_extruder (example_plr\<lparr>power_loss_recovery_enabled := False\<rparr>)
                example_env) = None
   \<and> stored (cmd_PLR_SAVE_PRINT_STATE (example_plr\<lparr>power_loss_recovery_enabled := False\<rparr>)
                example_env) = None
   \<and> power_loss_recovery_enabled
        (cmd_PLR_ENABLE (example_plr\<lparr>power_loss_recovery_enabled := False\<rparr>))"
proof -
  have h1: "init example_config None
     = Some (example_plr\<lparr>current_z_height := 0, last_layer := Some 0, is_active := False,
               power_loss_recovery_enabled := False, state_history := []\<rparr>)"
    by code_simp
  have h2: "\<not> power_loss_recovery_enabled (example_plr\<lparr>power_loss_recovery_enabled := False\<rparr>)"
    by simp
  have s: "stored (example_plr\<lparr>power_loss_recovery_enabled := False\<rparr>) = None"
    by (simp add: example_plr_def)
  from saving_is_off_until_enabled
         [of example_config None
             "example_plr\<lparr>current_z_height := 0, last_layer := Some 0, is_active := False,
               power_loss_recovery_enabled := False, state_history := []\<rparr>"
             "example_plr\<lparr>power_loss_recovery_enabled := False\<rparr>"
             example_env 100 "Given 6" "Given 1.2" True]
    h1 h2 s
  show ?thesis by simp
qed

subsection \<open>The progress percentage\<close>

lemma round_half_even_le: "x \<le> of_int k \<Longrightarrow> round_half_even x \<le> k"
proof -
  assume xk: "x \<le> of_int k"
  then have fk: "\<lfloor>x\<rfloor> \<le> k" by (simp add: floor_le_iff)
  show ?thesis
  proof (cases "\<lfloor>x\<rfloor> = k")
    case True
    then have "of_int k \<le> x" by (metis of_int_floor_le)
    with xk have "x = of_int k" by simp
    then show ?thesis by (simp add: round_half_even_def)
  next
    case False
    with fk have "\<lfloor>x\<rfloor> + 1 \<le> k" by simp
    then show ?thesis by (simp add: round_half_even_def Let_def)
  qed
qed

lemma round_half_even_ge: "of_int k \<le> x \<Longrightarrow> k \<le> round_half_even x"
proof -
  assume "of_int k \<le> x"
  then have "k \<le> \<lfloor>x\<rfloor>" by (simp add: le_floor_iff)
  then show ?thesis by (simp add: round_half_even_def Let_def)
qed

lemma py_round_2_bounds:
  assumes "0 \<le> x" and "x \<le> 100"
  shows "0 \<le> py_round x 2 \<and> py_round x 2 \<le> 100"
proof -
  from assms(1) have "of_int 0 \<le> x * 10 ^ 2" by simp
  then have lo: "0 \<le> round_half_even (x * 10 ^ 2)" by (rule round_half_even_ge)
  from assms(2) have "x * 10 ^ 2 \<le> of_int 10000" by simp
  then have hi: "round_half_even (x * 10 ^ 2) \<le> 10000" by (rule round_half_even_le)
  from lo have "0 \<le> py_round x 2" by (simp add: py_round_def)
  moreover from hi have "(of_int (round_half_even (x * 10 ^ 2)) :: real) \<le> 10000"
    by linarith
  then have "py_round x 2 \<le> 100" by (simp add: py_round_def)
  ultimately show ?thesis by simp
qed

lemma collected_progress_pct:
  assumes "collect_current_state p e = Some s" and "sensors e = Some r"
  shows "subfield s ''file_progress'' ''progress_pct''
         = (if 0 < r_file_size r
            then VFloat (py_round (of_int (r_file_position r) / of_int (r_file_size r) * 100) 2)
            else VInt 0)"
  using assms
  by (auto simp add: collect_current_state_def Let_def subfield_def field_def
        split: prod.splits)

lemma valid_progress_pct:
  assumes "fst (verify_state p (VDict s))"
  shows "0 \<le> num_of (subfield s ''file_progress'' ''progress_pct'')
       \<and> num_of (subfield s ''file_progress'' ''progress_pct'') \<le> 100"
proof (rule ccontr)
  assume "\<not> ?thesis"
  then have "\<not> fst (verify_state p (VDict s))"
    by (simp add: verify_state_def split: option.splits)
  with assms show False by simp
qed

text \<open>
  C6 as the code has it. The collector stores
  \<^verbatim>\<open>round(file_position / file_size * 100, 2)\<close>, or the integer 0 when the size is not
  positive, and does not clamp it. The value is within 0 and 100 when the position is
  within the file, and a snapshot with a value outside 0 and 100 does not pass the
  validator.
\<close>

theorem progress_pct_rounded_not_clamped:
  assumes "collect_current_state p e = Some s" and "sensors e = Some r"
  shows "subfield s ''file_progress'' ''progress_pct''
         = (if 0 < r_file_size r
            then VFloat (py_round (of_int (r_file_position r) / of_int (r_file_size r) * 100) 2)
            else VInt 0)
       \<and> (0 \<le> r_file_position r \<and> r_file_position r \<le> r_file_size r \<longrightarrow>
            0 \<le> num_of (subfield s ''file_progress'' ''progress_pct'')
            \<and> num_of (subfield s ''file_progress'' ''progress_pct'') \<le> 100)
       \<and> (fst (verify_state p (VDict s)) \<longrightarrow>
            0 \<le> num_of (subfield s ''file_progress'' ''progress_pct'')
            \<and> num_of (subfield s ''file_progress'' ''progress_pct'') \<le> 100)"
proof -
  note eq = collected_progress_pct [OF assms]
  have inside: "0 \<le> num_of (subfield s ''file_progress'' ''progress_pct'')
            \<and> num_of (subfield s ''file_progress'' ''progress_pct'') \<le> 100"
    if a: "0 \<le> r_file_position r" and b: "r_file_position r \<le> r_file_size r"
  proof (cases "0 < r_file_size r")
    case True
    let ?x = "(of_int (r_file_position r) / of_int (r_file_size r) * 100 :: real)"
    from True a have "0 \<le> ?x" by simp
    moreover from True b have "(of_int (r_file_position r) :: real) / of_int (r_file_size r) \<le> 1"
      by simp
    then have "(of_int (r_file_position r) :: real) / of_int (r_file_size r) * 100 \<le> 1 * 100"
      by (rule mult_right_mono) simp
    then have "?x \<le> 100" by simp
    ultimately have "0 \<le> py_round ?x 2 \<and> py_round ?x 2 \<le> 100" by (rule py_round_2_bounds)
    with True eq show ?thesis by simp
  next
    case False
    with eq show ?thesis by simp
  qed
  from eq inside valid_progress_pct [of p s] show ?thesis by blast
qed

theorem progress_pct_rounded_not_clamped_witness:
  "collect_current_state example_plr example_env
     = Some (the (collect_current_state example_plr example_env))
   \<and> sensors example_env = Some example_readings
   \<and> 0 \<le> r_file_position example_readings
   \<and> r_file_position example_readings \<le> r_file_size example_readings
   \<and> fst (verify_state example_plr (VDict (the (collect_current_state example_plr example_env))))
   \<and> subfield (the (collect_current_state example_plr example_env))
        ''file_progress'' ''progress_pct'' = VFloat 60
   \<and> num_of (subfield (the (collect_current_state example_plr example_env))
        ''file_progress'' ''progress_pct'') \<le> 100"
proof -
  have h1: "collect_current_state example_plr example_env
     = Some (the (collect_current_state example_plr example_env))"
    by code_simp
  have h2: "sensors example_env = Some example_readings"
    by (simp add: example_env_def)
  have h3: "0 \<le> r_file_position example_readings"
    "r_file_position example_readings \<le> r_file_size example_readings"
    "0 < r_file_size example_readings"
    by (simp_all add: example_readings_def)
  have h4: "fst (verify_state example_plr
              (VDict (the (collect_current_state example_plr example_env))))"
    by code_simp
  have v: "py_round (of_int (r_file_position example_readings)
             / of_int (r_file_size example_readings) * 100) 2 = 60"
    by code_simp
  from progress_pct_rounded_not_clamped [OF h1 h2] h1 h2 h3 h4 v
  show ?thesis by simp
qed

text \<open>
  C6 as stated fails: at position 2000 of a file of 1000 characters the collector
  returns a snapshot with the percentage 200.
\<close>

theorem progress_pct_clamped_counterexample:
  "collect_current_state example_plr
     (example_env\<lparr>sensors := Some (example_readings\<lparr>r_file_position := 2000\<rparr>)\<rparr>) \<noteq> None
   \<and> subfield (the (collect_current_state example_plr
         (example_env\<lparr>sensors := Some (example_readings\<lparr>r_file_position := 2000\<rparr>)\<rparr>)))
        ''file_progress'' ''progress_pct'' = VFloat 200
   \<and> \<not> (200 :: real) \<le> 100"
  by code_simp

subsection \<open>What a save does to the history\<close>







subsection \<open>The rewrite of the instruction file\<close>

lemma concat_py_lines: "concat (py_lines s) = s"
  by (induction s) (auto split: list.splits)

lemma get_saved_state_valid: "get_saved_state p = Some v \<Longrightarrow> fst (verify_state p v)"
  by (auto simp add: get_saved_state_def split: if_splits option.splits)

lemma backup_name_differs: "input_file @ ''.plr'' \<noteq> input_file"
  by simp

lemma rollback_after_rename:
  assumes "fs input_file = Some original" and "backup_file \<noteq> input_file"
  shows "rollback (fs(input_file := None, backup_file \<mapsto> original)) input_file backup_file
         = fs(backup_file := None)"
  using assms by (auto simp add: rollback_def fun_eq_iff)

lemma rollback_after_write:
  assumes "fs input_file = Some original" and "backup_file \<noteq> input_file"
  shows "rollback (fs(backup_file \<mapsto> original, input_file \<mapsto> written))
           input_file backup_file
         = fs(backup_file := None)"
  using assms by (auto simp add: rollback_def fun_eq_iff)

lemma modify_gcode_file_run:
  assumes "get_saved_state p = Some (VDict saved_state)"
    and "py_getitem (field saved_state ''position'') ''z'' = Some saved_z"
    and "fs input_file = Some original"
    and "flt \<noteq> FailRename"
  shows "modify_gcode_file fm flt p fs input_file file_position =
     (if flt = FailOpenIn \<or> flt = FailOpenOut then (None, fs(input_file @ ''.plr'' := None))
      else if fst (rewrite_stream flt (preamble_writes fm p saved_state saved_z) file_position
                     (py_lines original))
      then (Some input_file,
            fs(input_file @ ''.plr'' \<mapsto> original,
               input_file \<mapsto> concat (snd (rewrite_stream flt
                  (preamble_writes fm p saved_state saved_z) file_position (py_lines original)))))
      else (None, fs(input_file @ ''.plr'' := None)))"
proof -
  have ne: "input_file @ ''.plr'' \<noteq> input_file" by simp
  note rb = rollback_after_rename [where fs = fs, OF assms(3) ne]
    rollback_after_write [where fs = fs, OF assms(3) ne]
  have swap: "fs(input_file := None, input_file @ ''.plr'' \<mapsto> original, input_file \<mapsto> w)
            = fs(input_file @ ''.plr'' \<mapsto> original, input_file \<mapsto> w)" for w
    by (auto simp add: fun_eq_iff)
  show ?thesis using assms
    by (simp add: modify_gcode_file_def Let_def rb swap split: prod.splits)
qed


lemma saved_state_z:
  assumes "get_saved_state p = Some (VDict st)"
  shows "py_getitem (field st ''position'') ''z'' = Some (subfield st ''position'' ''z'')"
proof -
  from assms have "fst (verify_state p (VDict st))" by (rule get_saved_state_valid)
  from valid_axis [OF this, of "''z''"] obtain d a where
    "map_of st ''position'' = Some d" "py_getitem d ''z'' = Some a" by auto
  then show ?thesis by (simp add: subfield_def field_def)
qed

lemma saved_state_keys:
  assumes "get_saved_state p = Some (VDict st)"
  shows "dict_get st ''active_extruder'' d1 = field st ''active_extruder''
       \<and> dict_get st ''chamber_temp'' d2 = field st ''chamber_temp''"
proof -
  from assms have "fst (verify_state p (VDict st))" by (rule get_saved_state_valid)
  then have cf: "check_fields st required_fields = None" by (rule verify_state_fields)
  have "(''active_extruder'', TStr, []) \<in> set required_fields"
    "(''chamber_temp'', TNum, []) \<in> set required_fields"
    by (simp_all add: required_fields_def)
  from check_fields_NoneD [OF cf this(1)] check_fields_NoneD [OF cf this(2)]
  show ?thesis by (auto simp add: dict_get_def field_def)
qed

lemma copy_lines_skip:
  "c + int (length (concat before)) < file_position \<Longrightarrow>
   copy_lines file_position c (before @ rest)
   = copy_lines file_position (c + int (length (concat before))) rest"
proof (induction before arbitrary: c)
  case Nil
  then show ?case by simp
next
  case (Cons l before)
  from Cons.prems have lt: "c + int (length l) < file_position" by simp
  from Cons.prems have "(c + int (length l)) + int (length (concat before)) < file_position"
    by simp
  from Cons.IH [OF this] lt show ?case by (simp add: Let_def add.assoc)
qed

lemma copy_lines_all: "file_position \<le> c \<Longrightarrow> copy_lines file_position c ls = ls"
  by (induction ls arbitrary: c) (auto simp add: Let_def)

lemma copy_lines_straddle:
  assumes "int (length (concat before)) < file_position"
    and "file_position \<le> int (length (concat before) + length line)"
  shows "copy_lines file_position 0 (before @ line # after) = line # after"
proof -
  from assms(1) have "copy_lines file_position 0 (before @ line # after)
      = copy_lines file_position (int (length (concat before))) (line # after)"
    using copy_lines_skip [of 0 before file_position "line # after"] by simp
  also from assms(2) have "\<dots> = line # copy_lines file_position
      (int (length (concat before)) + int (length line)) after"
    by (simp add: Let_def)
  also from assms(2) have "\<dots> = line # after"
    by (simp add: copy_lines_all)
  finally show ?thesis .
qed

lemma copy_lines_beyond:
  assumes "int (length (concat ls)) < file_position"
  shows "copy_lines file_position 0 ls = []"
  using copy_lines_skip [of 0 ls file_position "[]"] assms by simp

lemma modify_gcode_file_done:
  assumes "get_saved_state p = Some (VDict st)" and "fs input_file = Some original"
  shows "modify_gcode_file fm NoFault p fs input_file file_position =
     (Some input_file,
      fs(input_file @ ''.plr'' \<mapsto> original,
         input_file \<mapsto> concat (preamble_writes fm p st (subfield st ''position'' ''z''))
                          @ concat (copy_lines file_position 0 (py_lines original))))"
proof -
  have "NoFault \<noteq> FailRename" by simp
  from modify_gcode_file_run [where fs = fs and flt = NoFault,
      OF assms(1) saved_state_z [OF assms(1)] assms(2) this]
  show ?thesis by (simp add: rewrite_stream_def)
qed

text \<open>
  C4 as the code has it. A rewrite that runs to its end returns the path of the new
  file. When at least one restart line is configured, the new file starts with the
  activation of the saved extruder, then the chamber temperature if a chamber heater is
  configured and the saved temperature is positive, then the move to the saved Z height,
  then the restart lines, then the placeholder line and the copied part. When no restart
  line is configured, it starts with the placeholder line.
\<close>

theorem preamble_only_with_restart_lines:
  assumes "get_saved_state p = Some (VDict st)" and "fs input_file = Some original"
  shows "fst (modify_gcode_file fm NoFault p fs input_file file_position) = Some input_file
       \<and> snd (modify_gcode_file fm NoFault p fs input_file file_position) input_file
         = Some ((if restart_gcode_lines p = [] then []
                  else ''ACTIVATE_EXTRUDER EXTRUDER='' @ str_of (field st ''active_extruder'') @ nl
                     @ (if 0 < num_of (field st ''chamber_temp'') \<and> chamber_heater_name p \<noteq> []
                        then ''SET_HEATER_TEMPERATURE HEATER='' @ chamber_heater_name p
                             @ '' TARGET='' @ fmt_str fm (field st ''chamber_temp'') @ nl
                        else [])
                     @ ''G1 Z'' @ fmt_3f fm (num_of (subfield st ''position'' ''z''))
                     @ '' F3000 ; Restore Z height'' @ nl
                     @ concat (map (\<lambda>gcode_line. gcode_line @ nl) (restart_gcode_lines p)))
                 @ PLACEHOLDER @ nl
                 @ concat (copy_lines file_position 0 (py_lines original)))"
proof -
  note keys = saved_state_keys [OF assms(1)]
  have pre: "concat (preamble_writes fm p st (subfield st ''position'' ''z''))
     = (if restart_gcode_lines p = [] then []
        else ''ACTIVATE_EXTRUDER EXTRUDER='' @ str_of (field st ''active_extruder'') @ nl
           @ (if 0 < num_of (field st ''chamber_temp'') \<and> chamber_heater_name p \<noteq> []
              then ''SET_HEATER_TEMPERATURE HEATER='' @ chamber_heater_name p
                   @ '' TARGET='' @ fmt_str fm (field st ''chamber_temp'') @ nl
              else [])
           @ ''G1 Z'' @ fmt_3f fm (num_of (subfield st ''position'' ''z''))
           @ '' F3000 ; Restore Z height'' @ nl
           @ concat (map (\<lambda>gcode_line. gcode_line @ nl) (restart_gcode_lines p)))
       @ PLACEHOLDER @ nl"
    by (simp add: preamble_writes_def Let_def keys)
  show ?thesis
    unfolding modify_gcode_file_done [where fs = fs, OF assms] by (simp add: pre)
qed

lemma example_saved_state: "get_saved_state example_plr_saved = Some (VDict (example_snapshot 3))"
  by code_simp

lemma example_original:
  "example_fs ''part.gcode'' = Some (''abc'' @ nl @ ''def'' @ nl @ ''ghi'' @ nl)"
  by (simp add: example_fs_def)

theorem preamble_only_with_restart_lines_witness:
  "get_saved_state example_plr_saved = Some (VDict (example_snapshot 3))
   \<and> example_fs ''part.gcode'' = Some (''abc'' @ nl @ ''def'' @ nl @ ''ghi'' @ nl)
   \<and> fst (modify_gcode_file example_fmt NoFault example_plr_saved example_fs ''part.gcode'' 5)
      = Some ''part.gcode''
   \<and> snd (modify_gcode_file example_fmt NoFault example_plr_saved example_fs ''part.gcode'' 5)
        ''part.gcode''
      = Some (''ACTIVATE_EXTRUDER EXTRUDER=extruder'' @ nl
              @ ''SET_HEATER_TEMPERATURE HEATER=chamber TARGET=45.0'' @ nl
              @ ''G1 Z3.000 F3000 ; Restore Z height'' @ nl
              @ ''G28 X Y'' @ nl @ ''M83'' @ nl
              @ '';;;;; PLR_RESUME - PRINT GCODE STARTS ;;;;;'' @ nl
              @ ''def'' @ nl @ ''ghi'' @ nl)"
proof -
  have v: "restart_gcode_lines example_plr_saved = [''G28 X Y'', ''M83'']"
    "chamber_heater_name example_plr_saved = ''chamber''"
    "field (example_snapshot 3) ''active_extruder'' = VStr ''extruder''"
    "field (example_snapshot 3) ''chamber_temp'' = VFloat 45"
    "subfield (example_snapshot 3) ''position'' ''z'' = VFloat 3"
    "fmt_str example_fmt (VFloat 45) = ''45.0''"
    "fmt_3f example_fmt 3 = ''3.000''"
    by (simp_all add: example_plr_saved_def example_plr_def example_snapshot_def field_def
          subfield_def example_fmt_def)
  have c: "copy_lines 5 0 (py_lines (''abc'' @ nl @ ''def'' @ nl @ ''ghi'' @ nl))
           = [''def'' @ nl, ''ghi'' @ nl]"
    by (simp add: nl_def Let_def)
  from preamble_only_with_restart_lines [where fs = example_fs and fm = example_fmt
      and file_position = 5, OF example_saved_state example_original]
    example_saved_state example_original v c
  show ?thesis by (simp add: str_of_def PLACEHOLDER_def)
qed

text \<open>
  C4 as stated fails: with no restart line configured, the new file starts with the
  placeholder line; no extruder is activated, no chamber temperature is set and no move
  to the saved Z height is written, although the checkpoint holds all three.
\<close>

theorem preamble_without_restart_lines_counterexample:
  "get_saved_state (example_plr_saved\<lparr>restart_gcode_lines := []\<rparr>)
     = Some (VDict (example_snapshot 3))
   \<and> field (example_snapshot 3) ''active_extruder'' = VStr ''extruder''
   \<and> fst (modify_gcode_file example_fmt NoFault (example_plr_saved\<lparr>restart_gcode_lines := []\<rparr>)
          example_fs ''part.gcode'' 5) = Some ''part.gcode''
   \<and> snd (modify_gcode_file example_fmt NoFault (example_plr_saved\<lparr>restart_gcode_lines := []\<rparr>)
          example_fs ''part.gcode'' 5) ''part.gcode''
      = Some ('';;;;; PLR_RESUME - PRINT GCODE STARTS ;;;;;'' @ nl @ ''def'' @ nl @ ''ghi'' @ nl)"
  by code_simp

text \<open>
  C3. With a checkpoint that can be read and an existing file, every failure forced into
  the rewrite after the rename (opening either file, a write, reading a line) makes the
  call return \<open>None\<close>; and whenever the call returns \<open>None\<close> after the rename, the file
  system is the one before the call without a backup file: the original name holds the
  original content, the backup name is free, every other path is untouched. If no file
  had the backup's name before the call, the file system is exactly as before.
\<close>

theorem failed_rewrite_is_rolled_back:
  assumes "get_saved_state p = Some (VDict st)" and "fs input_file = Some original"
    and "flt \<noteq> FailRename"
  shows "((flt = FailOpenIn \<or> flt = FailOpenOut
           \<or> (\<exists>k. flt = FailWrite k
                  \<and> k < length (preamble_writes fm p st (subfield st ''position'' ''z'')
                                @ copy_lines file_position 0 (py_lines original)))
           \<or> (\<exists>j. flt = FailRead j \<and> j < length (py_lines original)))
          \<longrightarrow> fst (modify_gcode_file fm flt p fs input_file file_position) = None)
       \<and> (fst (modify_gcode_file fm flt p fs input_file file_position) = None \<longrightarrow>
            snd (modify_gcode_file fm flt p fs input_file file_position)
              = fs(input_file @ ''.plr'' := None)
            \<and> snd (modify_gcode_file fm flt p fs input_file file_position) input_file
              = Some original
            \<and> snd (modify_gcode_file fm flt p fs input_file file_position)
                (input_file @ ''.plr'') = None
            \<and> (fs (input_file @ ''.plr'') = None \<longrightarrow>
                 snd (modify_gcode_file fm flt p fs input_file file_position) = fs))"
proof -
  note run = modify_gcode_file_run [where fs = fs and fm = fm and file_position = file_position,
      OF assms(1) saved_state_z [OF assms(1)] assms(2,3)]
  have hits: "fst (modify_gcode_file fm flt p fs input_file file_position) = None"
    if "flt = FailOpenIn \<or> flt = FailOpenOut
           \<or> (\<exists>k. flt = FailWrite k
                  \<and> k < length (preamble_writes fm p st (subfield st ''position'' ''z'')
                                @ copy_lines file_position 0 (py_lines original)))
           \<or> (\<exists>j. flt = FailRead j \<and> j < length (py_lines original))"
    using that unfolding run by (auto simp add: rewrite_stream_def Let_def)
  have undone: "snd (modify_gcode_file fm flt p fs input_file file_position)
              = fs(input_file @ ''.plr'' := None)"
    if "fst (modify_gcode_file fm flt p fs input_file file_position) = None"
    using that unfolding run by (auto split: if_splits)
  have same: "fs(input_file @ ''.plr'' := None) = fs" if "fs (input_file @ ''.plr'') = None"
    using that by (auto simp add: fun_eq_iff)
  have orig: "(fs(input_file @ ''.plr'' := None)) input_file = Some original"
    using assms(2) by simp
  from hits undone same orig show ?thesis by auto
qed

theorem failed_rewrite_is_rolled_back_witness:
  "get_saved_state example_plr_saved = Some (VDict (example_snapshot 3))
   \<and> example_fs ''part.gcode'' = Some (''abc'' @ nl @ ''def'' @ nl @ ''ghi'' @ nl)
   \<and> FailWrite 7 \<noteq> FailRename
   \<and> 7 < length (preamble_writes example_fmt example_plr_saved (example_snapshot 3)
                    (subfield (example_snapshot 3) ''position'' ''z'')
                  @ copy_lines 5 0 (py_lines (''abc'' @ nl @ ''def'' @ nl @ ''ghi'' @ nl)))
   \<and> example_fs (''part.gcode'' @ ''.plr'') = None
   \<and> fst (modify_gcode_file example_fmt (FailWrite 7) example_plr_saved example_fs
            ''part.gcode'' 5) = None
   \<and> snd (modify_gcode_file example_fmt (FailWrite 7) example_plr_saved example_fs
            ''part.gcode'' 5) = example_fs
   \<and> snd (modify_gcode_file example_fmt (FailWrite 7) example_plr_saved example_fs
            ''part.gcode'' 5) ''part.gcode''
      = Some (''abc'' @ nl @ ''def'' @ nl @ ''ghi'' @ nl)
   \<and> snd (modify_gcode_file example_fmt (FailWrite 7) example_plr_saved example_fs
            ''part.gcode'' 5) (''part.gcode'' @ ''.plr'') = None"
proof -
  have h3: "FailWrite 7 \<noteq> FailRename" by simp
  have h4: "7 < length (preamble_writes example_fmt example_plr_saved (example_snapshot 3)
                    (subfield (example_snapshot 3) ''position'' ''z'')
                  @ copy_lines 5 0 (py_lines (''abc'' @ nl @ ''def'' @ nl @ ''ghi'' @ nl)))"
    by code_simp
  have h5: "example_fs (''part.gcode'' @ ''.plr'') = None"
    by (simp add: example_fs_def)
  note inst = failed_rewrite_is_rolled_back [where fs = example_fs and fm = example_fmt
      and file_position = 5 and flt = "FailWrite 7", OF example_saved_state example_original h3]
  from inst h4 have r: "fst (modify_gcode_file example_fmt (FailWrite 7) example_plr_saved
            example_fs ''part.gcode'' 5) = None"
    by blast
  from inst r h5 have s: "snd (modify_gcode_file example_fmt (FailWrite 7) example_plr_saved
            example_fs ''part.gcode'' 5) = example_fs"
    by blast
  from inst r have t: "snd (modify_gcode_file example_fmt (FailWrite 7) example_plr_saved
            example_fs ''part.gcode'' 5) ''part.gcode''
      = Some (''abc'' @ nl @ ''def'' @ nl @ ''ghi'' @ nl)"
    "snd (modify_gcode_file example_fmt (FailWrite 7) example_plr_saved example_fs
            ''part.gcode'' 5) (''part.gcode'' @ ''.plr'') = None"
    by blast+
  from example_saved_state example_original h3 h4 h5 r s t
  show ?thesis by blast
qed

subsection \<open>Where the copied part starts\<close>

text \<open>
  The copy loop on any backup. When the resume position lies after the start of a line
  and not after its end, the copied part is the backup from the start of that line: the
  loop keeps the first line whose end reaches the position, so a line that ends exactly
  at the position is copied as well.
\<close>

lemma copy_starts_at_line_reaching_position:
  assumes "get_saved_state p = Some (VDict st)" and "fs input_file = Some original"
    and "py_lines original = before @ line # after"
    and "int (length (concat before)) < file_position"
    and "file_position \<le> int (length (concat before) + length line)"
  shows "snd (modify_gcode_file fm NoFault p fs input_file file_position) input_file
         = Some (concat (preamble_writes fm p st (subfield st ''position'' ''z''))
                 @ drop (length (concat before)) original)
       \<and> drop (length (concat before)) original = concat (line # after)"
proof -
  note run_ok = modify_gcode_file_done [where fs = fs and fm = fm
      and file_position = file_position, OF assms(1,2)]
  have "original = concat (py_lines original)" by (simp add: concat_py_lines)
  also have "\<dots> = concat before @ concat (line # after)" by (simp add: assms(3))
  finally have d: "drop (length (concat before)) original = concat (line # after)" by simp
  have "copy_lines file_position 0 (py_lines original) = line # after"
    unfolding assms(3) using assms(4,5) by (rule copy_lines_straddle)
  with d show ?thesis unfolding run_ok by simp
qed

lemma copy_whole_backup:
  assumes "get_saved_state p = Some (VDict st)" and "fs input_file = Some original"
    and "file_position \<le> 0"
  shows "snd (modify_gcode_file fm NoFault p fs input_file file_position) input_file
         = Some (concat (preamble_writes fm p st (subfield st ''position'' ''z'')) @ original)"
  unfolding modify_gcode_file_done [where fs = fs, OF assms(1,2)]
  using assms(3) by (simp add: copy_lines_all concat_py_lines)

text \<open>
  C2. The claim fails on the code at a resume position that is the end of a line, the
  place where a file position stands between two lines. The backup has the lines
  \<open>abc\<close>, \<open>def\<close>, \<open>ghi\<close>, each ended by a line feed and nothing else, so bytes and
  characters are the same and the line boundaries are 0, 4, 8 and 12. The checkpoint
  holds the position 4. The first boundary at or after 4 is 4, and the backup from there
  to its end is \<open>def\<close>, \<open>ghi\<close>. The loop of \<^verbatim>\<open>_modify_gcode_file\<close> skips a line only
  while the count after it is below the position, so the line \<open>abc\<close>, which ends at 4
  and lies before the resume position, is copied again: after the placeholder line the
  new file holds \<open>abc\<close>, \<open>def\<close>, \<open>ghi\<close>. With the position 12, the end of the
  backup, nothing is left to copy, and the code copies \<open>ghi\<close>.
\<close>

theorem splice_recopies_line_ending_at_position:
  "get_saved_state example_plr_resume = Some (VDict example_snapshot_resume)
   \<and> subfield example_snapshot_resume ''file_progress'' ''position'' = VInt 4
   \<and> example_fs ''part.gcode'' = Some (''abc'' @ nl @ ''def'' @ nl @ ''ghi'' @ nl)
   \<and> spec_first_boundary 4 (''abc'' @ nl @ ''def'' @ nl @ ''ghi'' @ nl) = 4
   \<and> spec_splice_body 4 (''abc'' @ nl @ ''def'' @ nl @ ''ghi'' @ nl) = ''def'' @ nl @ ''ghi'' @ nl
   \<and> fst (modify_gcode_file example_fmt NoFault example_plr_resume example_fs ''part.gcode'' 4)
      = Some ''part.gcode''
   \<and> snd (modify_gcode_file example_fmt NoFault example_plr_resume example_fs ''part.gcode'' 4)
        ''part.gcode''
      = Some (concat (preamble_writes example_fmt example_plr_resume example_snapshot_resume
                        (subfield example_snapshot_resume ''position'' ''z''))
              @ ''abc'' @ nl @ ''def'' @ nl @ ''ghi'' @ nl)
   \<and> ''abc'' @ nl @ ''def'' @ nl @ ''ghi'' @ nl
       \<noteq> spec_splice_body 4 (''abc'' @ nl @ ''def'' @ nl @ ''ghi'' @ nl)
   \<and> spec_splice_body 12 (''abc'' @ nl @ ''def'' @ nl @ ''ghi'' @ nl) = []
   \<and> snd (modify_gcode_file example_fmt NoFault example_plr_resume example_fs ''part.gcode'' 12)
        ''part.gcode''
      = Some (concat (preamble_writes example_fmt example_plr_resume example_snapshot_resume
                        (subfield example_snapshot_resume ''position'' ''z''))
              @ ''ghi'' @ nl)"
proof -
  have saved: "get_saved_state example_plr_resume = Some (VDict example_snapshot_resume)"
    "subfield example_snapshot_resume ''file_progress'' ''position'' = VInt 4"
    by code_simp+
  have words: "spec_first_boundary 4 (''abc'' @ nl @ ''def'' @ nl @ ''ghi'' @ nl) = 4"
    "spec_splice_body 4 (''abc'' @ nl @ ''def'' @ nl @ ''ghi'' @ nl) = ''def'' @ nl @ ''ghi'' @ nl"
    "spec_splice_body 12 (''abc'' @ nl @ ''def'' @ nl @ ''ghi'' @ nl) = []"
    "''abc'' @ nl @ ''def'' @ nl @ ''ghi'' @ nl
       \<noteq> spec_splice_body 4 (''abc'' @ nl @ ''def'' @ nl @ ''ghi'' @ nl)"
    by code_simp+
  have code: "fst (modify_gcode_file example_fmt NoFault example_plr_resume example_fs
                     ''part.gcode'' 4) = Some ''part.gcode''"
    "snd (modify_gcode_file example_fmt NoFault example_plr_resume example_fs ''part.gcode'' 4)
        ''part.gcode''
      = Some (concat (preamble_writes example_fmt example_plr_resume example_snapshot_resume
                        (subfield example_snapshot_resume ''position'' ''z''))
              @ ''abc'' @ nl @ ''def'' @ nl @ ''ghi'' @ nl)"
    "snd (modify_gcode_file example_fmt NoFault example_plr_resume example_fs ''part.gcode'' 12)
        ''part.gcode''
      = Some (concat (preamble_writes example_fmt example_plr_resume example_snapshot_resume
                        (subfield example_snapshot_resume ''position'' ''z''))
              @ ''ghi'' @ nl)"
    by code_simp+
  from saved example_original words code show ?thesis by blast
qed

end
